theory Spec2Isabelle
  imports Complex_Main
begin

section \<open>Batched ARIMA (python/cuml/ts/arima.py): data model\<close>

text \<open>
  Exceptions of the Python source are values: every function that can raise returns
  \<open>py_error + 'a\<close>, with \<open>Inl\<close> the exception.
\<close>

datatype py_error =
    IndexError
  | ValueError
  | AssertionError
  | NotImplementedError
  | FloatingPointError
  | ZeroDivisionError
  | TypeError
  | ExternalError

subsection \<open>One-dimensional arrays\<close>

text \<open>
  A one-dimensional numpy array is a list. \<open>slice x a b\<close> is Python's \<open>x[a:b]\<close> for
  non-negative bounds: it never raises, and is cut at the end of the array.
\<close>

definition slice :: "'a list \<Rightarrow> nat \<Rightarrow> nat \<Rightarrow> 'a list" where
  "slice x a b = take (b - a) (drop a x)"

text \<open>
  \<open>x[a:b] = v\<close> on a numpy array: the value must have the length of the slice, or
  length one (numpy broadcasts it over the slice); anything else is a ValueError.
\<close>

definition assign_slice :: "'a list \<Rightarrow> nat \<Rightarrow> nat \<Rightarrow> 'a list \<Rightarrow> py_error + 'a list" where
  "assign_slice x a b v =
     (let n = length (slice x a b) in
      if length v = n then Inr (take a x @ v @ drop (a + n) x)
      else if length v = 1 then Inr (take a x @ replicate n (hd v) @ drop (a + n) x)
      else Inl ValueError)"

text \<open>\<open>x[i]\<close> for a non-negative index: IndexError outside the array.\<close>

definition item :: "'a list \<Rightarrow> nat \<Rightarrow> py_error + 'a" where
  "item x i = (if i < length x then Inr (x ! i) else Inl IndexError)"

section \<open>Parameter codec: unpack and pack\<close>

text \<open>
  \<^verbatim>\<open>
  def unpack(p, q, nb, x):
      num_parameters = 1 + p + q
      mu = np.zeros(nb)
      ar = []
      ma = []
      for i in range(nb):
          xi = x[i*num_parameters:(i+1)*num_parameters]
          mu[i] = xi[0]
          ar.append(xi[1:p+1])
          ma.append(xi[p+1:])
      return (mu, ar, ma)
  \<close>
  The loop runs over the indices of \<open>range(nb)\<close>; its state is \<open>(mu, ar, ma)\<close>.
  \<open>xi[0]\<close> raises IndexError when the block is empty, the slices never raise.
\<close>

fun unpack_loop ::
  "nat \<Rightarrow> nat \<Rightarrow> 'a list \<Rightarrow> nat list \<Rightarrow> 'a list \<times> 'a list list \<times> 'a list list
     \<Rightarrow> py_error + ('a list \<times> 'a list list \<times> 'a list list)" where
  "unpack_loop p q x [] st = Inr st"
| "unpack_loop p q x (i # is) (mu, ar, ma) =
     (let num_parameters = 1 + p + q;
          xi = slice x (i * num_parameters) ((i + 1) * num_parameters)
      in case item xi 0 of
           Inl e \<Rightarrow> Inl e
         | Inr v \<Rightarrow>
             unpack_loop p q x is
               (mu[i := v], ar @ [slice xi 1 (p + 1)], ma @ [drop (p + 1) xi]))"

definition unpack ::
  "nat \<Rightarrow> nat \<Rightarrow> nat \<Rightarrow> ('a::zero) list
     \<Rightarrow> py_error + ('a list \<times> 'a list list \<times> 'a list list)" where
  "unpack p q nb x = unpack_loop p q x [0..<nb] (replicate nb 0, [], [])"

text \<open>
  \<^verbatim>\<open>
  def pack(p, q, nb, mu, ar, ma):
      num_parameters = 1 + p + q
      x = np.zeros(num_parameters*nb)
      for i in range(nb):
          xi = np.array([mu[i]])
          xi = np.r_[xi, ar[i]]
          xi = np.r_[xi, ma[i]]
          x[i*num_parameters:(i+1)*num_parameters] = xi
      return x
  \<close>
  \<open>mu[i]\<close>, \<open>ar[i]\<close> and \<open>ma[i]\<close> raise IndexError past the end of their container;
  the slice assignment raises ValueError when the block has the wrong length.
\<close>

fun pack_loop ::
  "nat \<Rightarrow> nat \<Rightarrow> 'a list \<Rightarrow> 'a list list \<Rightarrow> 'a list list \<Rightarrow> nat list \<Rightarrow> 'a list
     \<Rightarrow> py_error + 'a list" where
  "pack_loop p q mu ar ma [] x = Inr x"
| "pack_loop p q mu ar ma (i # is) x =
     (let num_parameters = 1 + p + q in
      case item mu i of
        Inl e \<Rightarrow> Inl e
      | Inr m \<Rightarrow>
         (case item ar i of
            Inl e \<Rightarrow> Inl e
          | Inr a \<Rightarrow>
             (case item ma i of
                Inl e \<Rightarrow> Inl e
              | Inr b \<Rightarrow>
                 (case assign_slice x (i * num_parameters) ((i + 1) * num_parameters)
                         ([m] @ a @ b) of
                    Inl e \<Rightarrow> Inl e
                  | Inr x' \<Rightarrow> pack_loop p q mu ar ma is x'))))"

definition pack ::
  "nat \<Rightarrow> nat \<Rightarrow> nat \<Rightarrow> ('a::zero) list \<Rightarrow> 'a list list \<Rightarrow> 'a list list
     \<Rightarrow> py_error + 'a list" where
  "pack p q nb mu ar ma =
     pack_loop p q mu ar ma [0..<nb] (replicate ((1 + p + q) * nb) 0)"

text \<open>The block of batch member \<open>i\<close> in the flat vector: \<open>[mu_i, ar_i, ma_i]\<close>.\<close>

definition block :: "'a list \<Rightarrow> 'a list list \<Rightarrow> 'a list list \<Rightarrow> nat \<Rightarrow> 'a list" where
  "block mu ar ma i = [mu ! i] @ ar ! i @ ma ! i"

section \<open>Floating-point values\<close>

text \<open>
  A numpy \<open>float64\<close> is modelled as a real number, an infinity or NaN. Arithmetic is exact
  on finite values (rounding, overflow and the sign of zero are not modelled) and follows
  IEEE 754 on the special values: NaN propagates, \<open>inf - inf\<close>, \<open>0 * inf\<close>, \<open>0 / 0\<close> and
  \<open>inf / inf\<close> are NaN, and every comparison with NaN is false.
\<close>

datatype npfloat = Fin real | PInf | NInf | NaN

instantiation npfloat :: zero
begin

definition zero_npfloat :: npfloat where
  "zero_npfloat = Fin 0"

instance ..

end

fun isnan :: "npfloat \<Rightarrow> bool" where
  "isnan NaN = True"
| "isnan _ = False"

fun isinf :: "npfloat \<Rightarrow> bool" where
  "isinf PInf = True"
| "isinf NInf = True"
| "isinf _ = False"

fun isfinite :: "npfloat \<Rightarrow> bool" where
  "isfinite (Fin _) = True"
| "isfinite _ = False"

fun fl_sign :: "npfloat \<Rightarrow> int" where
  "fl_sign (Fin r) = (if r < 0 then - 1 else if r = 0 then 0 else 1)"
| "fl_sign PInf = 1"
| "fl_sign NInf = - 1"
| "fl_sign NaN = 0"

definition inf_of_sign :: "int \<Rightarrow> npfloat" where
  "inf_of_sign s = (if 0 < s then PInf else if s < 0 then NInf else NaN)"

fun fl_neg :: "npfloat \<Rightarrow> npfloat" where
  "fl_neg (Fin r) = Fin (- r)"
| "fl_neg PInf = NInf"
| "fl_neg NInf = PInf"
| "fl_neg NaN = NaN"

fun fl_add :: "npfloat \<Rightarrow> npfloat \<Rightarrow> npfloat" where
  "fl_add NaN _ = NaN"
| "fl_add _ NaN = NaN"
| "fl_add (Fin a) (Fin b) = Fin (a + b)"
| "fl_add PInf NInf = NaN"
| "fl_add NInf PInf = NaN"
| "fl_add PInf _ = PInf"
| "fl_add _ PInf = PInf"
| "fl_add NInf _ = NInf"
| "fl_add _ NInf = NInf"

definition fl_sub :: "npfloat \<Rightarrow> npfloat \<Rightarrow> npfloat" where
  "fl_sub a b = fl_add a (fl_neg b)"

fun fl_mul :: "npfloat \<Rightarrow> npfloat \<Rightarrow> npfloat" where
  "fl_mul NaN _ = NaN"
| "fl_mul _ NaN = NaN"
| "fl_mul (Fin a) (Fin b) = Fin (a * b)"
| "fl_mul a b = inf_of_sign (fl_sign a * fl_sign b)"

fun fl_div :: "npfloat \<Rightarrow> npfloat \<Rightarrow> npfloat" where
  "fl_div NaN _ = NaN"
| "fl_div _ NaN = NaN"
| "fl_div (Fin a) (Fin b) = (if b = 0 then inf_of_sign (fl_sign (Fin a)) else Fin (a / b))"
| "fl_div (Fin a) _ = Fin 0"
| "fl_div a (Fin b) = inf_of_sign (fl_sign a * (if b < 0 then - 1 else 1))"
| "fl_div _ _ = NaN"

fun fl_less :: "npfloat \<Rightarrow> npfloat \<Rightarrow> bool" where
  "fl_less NaN _ = False"
| "fl_less _ NaN = False"
| "fl_less (Fin a) (Fin b) = (a < b)"
| "fl_less _ NInf = False"
| "fl_less NInf _ = True"
| "fl_less PInf _ = False"
| "fl_less _ PInf = True"

text \<open>\<open>a.sum()\<close> and \<open>np.dot(a, b)\<close> on one-dimensional arrays; \<open>np.dot\<close> raises
  ValueError when the lengths differ.\<close>

definition fl_sum :: "npfloat list \<Rightarrow> npfloat" where
  "fl_sum a = foldl fl_add (Fin 0) a"

definition np_dot :: "npfloat list \<Rightarrow> npfloat list \<Rightarrow> py_error + npfloat" where
  "np_dot a b =
     (if length a = length b then Inr (fl_sum (map2 fl_mul a b)) else Inl ValueError)"

text \<open>\<open>x[-n:]\<close> for \<open>n > 0\<close>: the last \<open>n\<close> elements, the whole array when it is shorter.\<close>

definition tail_slice :: "'a list \<Rightarrow> nat \<Rightarrow> 'a list" where
  "tail_slice x n = drop (length x - n) x"

text \<open>\<open>np.diff(y)\<close> of a one-dimensional array: \<open>y[1:] - y[:-1]\<close>.\<close>

definition np_diff :: "npfloat list \<Rightarrow> npfloat list" where
  "np_diff y = map2 fl_sub (tl y) (butlast y)"

text \<open>\<open>np.cumsum(x)\<close>: the running sums, as many as \<open>x\<close> has elements.\<close>

fun cumsum_from :: "npfloat \<Rightarrow> npfloat list \<Rightarrow> npfloat list" where
  "cumsum_from acc [] = []"
| "cumsum_from acc (v # vs) = fl_add acc v # cumsum_from (fl_add acc v) vs"

definition np_cumsum :: "npfloat list \<Rightarrow> npfloat list" where
  "np_cumsum x = (case x of [] \<Rightarrow> [] | v # vs \<Rightarrow> v # cumsum_from v vs)"

section \<open>Differencing utility\<close>

text \<open>
  \<^verbatim>\<open>
  def undifference(x, x0):
      xi = np.append(x0, x)
      return np.cumsum(xi)
  \<close>
\<close>

definition undifference :: "npfloat list \<Rightarrow> npfloat \<Rightarrow> npfloat list" where
  "undifference x x0 = (let xi = [x0] @ x in np_cumsum xi)"

section \<open>Orders\<close>

text \<open>
  An entry of a model's order list is the tuple \<open>(p, d, q)\<close>, or the empty list that
  \<open>grid_search\<close> installs as a placeholder. Unpacking \<open>p, d, q = order\<close> raises ValueError
  on the placeholder.
\<close>

datatype py_order = Order nat int nat | EmptyOrder

fun unpack_order :: "py_order \<Rightarrow> py_error + (nat \<times> int \<times> nat)" where
  "unpack_order (Order p d q) = Inr (p, d, q)"
| "unpack_order EmptyOrder = Inl ValueError"

section \<open>Recursive forecast generator\<close>

text \<open>
  \<^verbatim>\<open>
  def fc_single(num_steps, order, y_diff, vs, mu, ma_params, ar_params):
      p, _, q = order
      y_ = np.zeros(p+num_steps)
      vs_ = np.zeros(q+num_steps)
      if p>0:
          y_[:p] = y_diff[-p:]
      if q>0:
          vs_[:q] = vs[-q:]
      fcast = np.zeros(num_steps)
      for i in range(num_steps):
          mu_star = mu * (1-ar_params.sum())
          fcast[i] = mu_star
          if p > 0:
              fcast[i] += np.dot(ar_params, y_[i:i+p])
          if q > 0 and i < q:
              fcast[i] += np.dot(ma_params, vs_[i:i+q])
          if p > 0:
              y_[i+p] = fcast[i]
      return fcast
  \<close>
  The loop state is \<open>(ybuf, fcast)\<close>, with \<open>ybuf\<close> for \<^verbatim>\<open>y_\<close>; \<open>vsbuf\<close> (for \<^verbatim>\<open>vs_\<close>) is
  not written in the loop.
\<close>

fun fc_single_loop ::
  "nat \<Rightarrow> nat \<Rightarrow> npfloat \<Rightarrow> npfloat list \<Rightarrow> npfloat list \<Rightarrow> npfloat list \<Rightarrow> nat list
     \<Rightarrow> npfloat list \<times> npfloat list \<Rightarrow> py_error + (npfloat list \<times> npfloat list)" where
  "fc_single_loop p q mu ma_params ar_params vsbuf [] st = Inr st"
| "fc_single_loop p q mu ma_params ar_params vsbuf (i # is) (ybuf, fcast) =
     (let mu_star = fl_mul mu (fl_sub (Fin 1) (fl_sum ar_params));
          f0 = mu_star
      in case (if p > 0
               then (case np_dot ar_params (slice ybuf i (i + p)) of
                       Inl e \<Rightarrow> Inl e | Inr t \<Rightarrow> Inr (fl_add f0 t))
               else Inr f0) of
           Inl e \<Rightarrow> Inl e
         | Inr f1 \<Rightarrow>
            (case (if q > 0 \<and> i < q
                   then (case np_dot ma_params (slice vsbuf i (i + q)) of
                           Inl e \<Rightarrow> Inl e | Inr t \<Rightarrow> Inr (fl_add f1 t))
                   else Inr f1) of
               Inl e \<Rightarrow> Inl e
             | Inr f2 \<Rightarrow>
                 fc_single_loop p q mu ma_params ar_params vsbuf is
                   (if p > 0 then ybuf[i + p := f2] else ybuf, fcast[i := f2])))"

definition fc_single ::
  "nat \<Rightarrow> py_order \<Rightarrow> npfloat list \<Rightarrow> npfloat list \<Rightarrow> npfloat \<Rightarrow> npfloat list \<Rightarrow> npfloat list
     \<Rightarrow> py_error + npfloat list" where
  "fc_single num_steps order y_diff vs mu ma_params ar_params =
     (case unpack_order order of
        Inl e \<Rightarrow> Inl e
      | Inr (p, _, q) \<Rightarrow>
         (case (if p > 0
                then assign_slice (replicate (p + num_steps) (Fin 0)) 0 p (tail_slice y_diff p)
                else Inr (replicate (p + num_steps) (Fin 0))) of
            Inl e \<Rightarrow> Inl e
          | Inr ybuf \<Rightarrow>
             (case (if q > 0
                    then assign_slice (replicate (q + num_steps) (Fin 0)) 0 q (tail_slice vs q)
                    else Inr (replicate (q + num_steps) (Fin 0))) of
                Inl e \<Rightarrow> Inl e
              | Inr vsbuf \<Rightarrow>
                 (case fc_single_loop p q mu ma_params ar_params vsbuf [0..<num_steps]
                         (ybuf, replicate num_steps (Fin 0)) of
                    Inl e \<Rightarrow> Inl e
                  | Inr (_, fcast) \<Rightarrow> Inr fcast))))"

text \<open>
  The forecast recursion in the spec's words (section 4.8), to be compared with
  \<open>fc_single\<close>. At step \<open>i\<close> the AR window is the trailing \<open>p\<close> values of the history
  followed by the forecasts made so far; the MA window is the trailing \<open>q\<close> entries of the
  innovations followed by zeros for the steps already forecast (future innovations are
  unknown), so that it holds no innovation at all from step \<open>q\<close> on.
\<close>

definition fl_dot :: "npfloat list \<Rightarrow> npfloat list \<Rightarrow> npfloat" where
  "fl_dot a b = fl_sum (map2 fl_mul a b)"

definition ar_window :: "nat \<Rightarrow> npfloat list \<Rightarrow> npfloat list \<Rightarrow> nat \<Rightarrow> npfloat list" where
  "ar_window p y_diff prev i = slice (tail_slice y_diff p @ prev) i (i + p)"

definition ma_window :: "nat \<Rightarrow> npfloat list \<Rightarrow> nat \<Rightarrow> npfloat list" where
  "ma_window q vs i = drop i (tail_slice vs q) @ replicate i (Fin 0)"

definition forecast_at ::
  "nat \<Rightarrow> nat \<Rightarrow> npfloat \<Rightarrow> npfloat list \<Rightarrow> npfloat list \<Rightarrow> npfloat list \<Rightarrow> npfloat list
     \<Rightarrow> npfloat list \<Rightarrow> nat \<Rightarrow> npfloat" where
  "forecast_at p q mu ar ma y_diff vs prev i =
     fl_add
       (fl_add (fl_mul mu (fl_sub (Fin 1) (fl_sum ar))) (fl_dot ar (ar_window p y_diff prev i)))
       (if i < q then fl_dot ma (ma_window q vs i) else Fin 0)"

fun forecast_spec ::
  "nat \<Rightarrow> nat \<Rightarrow> npfloat \<Rightarrow> npfloat list \<Rightarrow> npfloat list \<Rightarrow> npfloat list \<Rightarrow> npfloat list
     \<Rightarrow> nat \<Rightarrow> npfloat list" where
  "forecast_spec p q mu ar ma y_diff vs 0 = []"
| "forecast_spec p q mu ar ma y_diff vs (Suc k) =
     (let prev = forecast_spec p q mu ar ma y_diff vs k
      in prev @ [forecast_at p q mu ar ma y_diff vs prev k])"

text \<open>The state of the loop of \<open>fc_single\<close> after \<open>k\<close> of \<open>n\<close> steps, given the forecasts
  \<open>F\<close> made so far: the AR working buffer and the forecast array (used in the proofs).\<close>

definition fc_state :: "nat \<Rightarrow> npfloat list \<Rightarrow> npfloat list \<Rightarrow> nat \<Rightarrow> nat \<Rightarrow> npfloat list \<times> npfloat list" where
  "fc_state p hp F n k =
     (if p > 0 then hp @ F @ replicate (n - k) (Fin 0) else replicate (p + n) (Fin 0),
      F @ replicate (n - k) (Fin 0))"


section \<open>Global state: the floating-point error mode, the output, the external calls\<close>

text \<open>
  \<open>np.seterr(all=...)\<close> writes a process-wide mode. It is state, threaded through every
  function that sets it or calls a function that does. \<open>stdout\<close> collects what \<open>print\<close>
  writes. \<open>calls\<close> is a history variable: it records every call of an external
  collaborator together with the mode in effect when the call is made; no function reads
  it.
\<close>

datatype np_errmode = ErrIgnore | ErrWarn | ErrRaise | ErrCall | ErrPrint | ErrLog

datatype ext_call =
    Call_init_batched_kalman_matrices
  | Call_batched_kfilter
  | Call_ar_transparams
  | Call_ma_transparams
  | Call_ar_invtransparams
  | Call_ma_invtransparams
  | Call_batched_fmin_lbfgs_b

record world =
  errmode :: np_errmode
  stdout :: "string list"
  calls :: "(ext_call \<times> np_errmode) list"

type_synonym 'a io = "world \<Rightarrow> py_error + ('a \<times> world)"

definition ret :: "'a \<Rightarrow> 'a io" where
  "ret v w = Inr (v, w)"

definition bnd :: "'a io \<Rightarrow> ('a \<Rightarrow> 'b io) \<Rightarrow> 'b io" where
  "bnd m f w = (case m w of Inl e \<Rightarrow> Inl e | Inr (v, w') \<Rightarrow> f v w')"

definition lift :: "py_error + 'a \<Rightarrow> 'a io" where
  "lift r w = (case r of Inl e \<Rightarrow> Inl e | Inr v \<Rightarrow> Inr (v, w))"

definition seterr :: "np_errmode \<Rightarrow> unit io" where
  "seterr m w = Inr ((), w\<lparr>errmode := m\<rparr>)"

definition print_line :: "string \<Rightarrow> unit io" where
  "print_line s w = Inr ((), w\<lparr>stdout := stdout w @ [s]\<rparr>)"

text \<open>A call of an external collaborator: recorded with the mode in effect, which is
  also an input of the collaborator (numpy code inside it traps or not according to it).\<close>

definition call_ext :: "ext_call \<Rightarrow> (np_errmode \<Rightarrow> py_error + 'a) \<Rightarrow> 'a io" where
  "call_ext c f w =
     (case f (errmode w) of
        Inl e \<Rightarrow> Inl e
      | Inr v \<Rightarrow> Inr (v, w\<lparr>calls := calls w @ [(c, errmode w)]\<rparr>))"

text \<open>Sequencing of functions that only raise or return.\<close>

definition ebind :: "py_error + 'a \<Rightarrow> ('a \<Rightarrow> py_error + 'b) \<Rightarrow> py_error + 'b" where
  "ebind r f = (case r of Inl e \<Rightarrow> Inl e | Inr v \<Rightarrow> f v)"

fun mapE :: "('a \<Rightarrow> py_error + 'b) \<Rightarrow> 'a list \<Rightarrow> py_error + 'b list" where
  "mapE f [] = Inr []"
| "mapE f (x # xs) =
     (case f x of
        Inl e \<Rightarrow> Inl e
      | Inr v \<Rightarrow> (case mapE f xs of Inl e \<Rightarrow> Inl e | Inr vs \<Rightarrow> Inr (v # vs)))"

section \<open>Two-dimensional arrays\<close>

text \<open>
  A two-dimensional numpy array: its shape and its rows. A series batch \<open>y\<close> has one row
  per time step and one column per batch member. Well-formed arrays have \<open>shape0\<close> rows of
  \<open>shape1\<close> elements each.
\<close>

datatype 'a array2 = Array2 (shape0: nat) (shape1: nat) (rows: "'a list list")

definition wf_array2 :: "'a array2 \<Rightarrow> bool" where
  "wf_array2 a \<longleftrightarrow> length (rows a) = shape0 a \<and> list_all (\<lambda>r. length r = shape1 a) (rows a)"

text \<open>\<open>a[:, i]\<close>, \<open>a[-1, :]\<close>, \<open>a[-1, i]\<close> and \<open>a[0:-1, :]\<close>.\<close>

definition column :: "'a array2 \<Rightarrow> nat \<Rightarrow> py_error + 'a list" where
  "column a i = (if i < shape1 a then Inr (map (\<lambda>r. r ! i) (rows a)) else Inl IndexError)"

definition last_row :: "'a array2 \<Rightarrow> py_error + 'a list" where
  "last_row a = (if shape0 a = 0 then Inl IndexError else Inr (last (rows a)))"

definition last_item :: "'a array2 \<Rightarrow> nat \<Rightarrow> py_error + 'a" where
  "last_item a i =
     (if shape0 a = 0 \<or> shape1 a \<le> i then Inl IndexError else Inr (last (rows a) ! i))"

definition but_last_row :: "'a array2 \<Rightarrow> 'a array2" where
  "but_last_row a = Array2 (shape0 a - 1) (shape1 a) (butlast (rows a))"

text \<open>\<open>np.diff(a, axis=0)\<close>: each row minus the row before it.\<close>

definition np_diff0 :: "npfloat array2 \<Rightarrow> npfloat array2" where
  "np_diff0 a =
     Array2 (shape0 a - 1) (shape1 a) (map2 (map2 fl_sub) (tl (rows a)) (butlast (rows a)))"

text \<open>
  numpy broadcasting of an elementwise operation: along each axis the lengths must be
  equal, or one of them must be one (that operand is then repeated); ValueError otherwise.
\<close>

definition bshape :: "nat \<Rightarrow> nat \<Rightarrow> nat option" where
  "bshape m k = (if m = k then Some m else if m = 1 then Some k else if k = 1 then Some m else None)"

definition bget1 :: "'a list \<Rightarrow> nat \<Rightarrow> 'a" where
  "bget1 a i = a ! (if length a = 1 then 0 else i)"

definition broadcast1 ::
  "('a \<Rightarrow> 'a \<Rightarrow> 'b) \<Rightarrow> 'a list \<Rightarrow> 'a list \<Rightarrow> py_error + 'b list" where
  "broadcast1 f a b =
     (case bshape (length a) (length b) of
        None \<Rightarrow> Inl ValueError
      | Some n \<Rightarrow> Inr (map (\<lambda>i. f (bget1 a i) (bget1 b i)) [0..<n]))"

definition bget2 :: "'a array2 \<Rightarrow> nat \<Rightarrow> nat \<Rightarrow> 'a" where
  "bget2 a i j =
     rows a ! (if shape0 a = 1 then 0 else i) ! (if shape1 a = 1 then 0 else j)"

definition broadcast2 ::
  "('a \<Rightarrow> 'a \<Rightarrow> 'b) \<Rightarrow> 'a array2 \<Rightarrow> 'a array2 \<Rightarrow> py_error + 'b array2" where
  "broadcast2 f a b =
     (case (bshape (shape0 a) (shape0 b), bshape (shape1 a) (shape1 b)) of
        (Some r, Some c) \<Rightarrow>
          Inr (Array2 r c
                 (map (\<lambda>i. map (\<lambda>j. f (bget2 a i j) (bget2 b i j)) [0..<c]) [0..<r]))
      | _ \<Rightarrow> Inl ValueError)"

text \<open>A one-dimensional array in an operation with a two-dimensional one is a single row.\<close>

definition as_row :: "'a list \<Rightarrow> 'a array2" where
  "as_row v = Array2 1 (length v) [v]"

text \<open>\<open>a[:, i] = v\<close>: IndexError outside the columns; the value must have one element per
  row, or a single one.\<close>

definition assign_column :: "'a array2 \<Rightarrow> nat \<Rightarrow> 'a list \<Rightarrow> py_error + 'a array2" where
  "assign_column a i v =
     (if shape1 a \<le> i then Inl IndexError
      else if length v = shape0 a \<or> length v = 1 then
        Inr (Array2 (shape0 a) (shape1 a)
               (map (\<lambda>k. (rows a ! k)[i := bget1 v k]) [0..<shape0 a]))
      else Inl ValueError)"

section \<open>The model object\<close>

text \<open>
  \<^verbatim>\<open>
  class ARIMAModel:
      def __init__(self, order, mu, ar_params, ma_params, y):
          self.order = order
          self.mu = mu
          self.ar_params = ar_params
          self.ma_params = ma_params
          self.y = y
          self.num_samples = y.shape[0]
          self.num_batches = y.shape[1]
          self.yp = None
          self.niter = None
  \<close>
\<close>

record arima_model =
  model_order :: "py_order list"
  model_mu :: "npfloat list"
  model_ar_params :: "npfloat list list"
  model_ma_params :: "npfloat list list"
  model_y :: "npfloat array2"
  model_num_samples :: nat
  model_num_batches :: nat
  model_yp :: "npfloat array2 option"
  model_niter :: "int list option"

definition ARIMAModel ::
  "py_order list \<Rightarrow> npfloat list \<Rightarrow> npfloat list list \<Rightarrow> npfloat list list \<Rightarrow> npfloat array2
     \<Rightarrow> arima_model" where
  "ARIMAModel order mu ar_params ma_params y =
     \<lparr> model_order = order, model_mu = mu, model_ar_params = ar_params,
       model_ma_params = ma_params, model_y = y,
       model_num_samples = shape0 y, model_num_batches = shape1 y,
       model_yp = None, model_niter = None \<rparr>"

section \<open>External collaborators\<close>

text \<open>
  The Kalman kernel (\<open>batched_kalman\<close>), the optimizer (\<open>batched_lbfgs\<close>) and the
  statsmodels transforms are not part of this module: they are parameters. \<open>'k\<close> is the
  type of the state-space matrices \<open>(Zb, Rb, Tb, r)\<close>. Each takes the error mode in effect.
  The optimizer calls the objective and the gradient it is given, so it runs in the state;
  it returns \<open>(x, niter, flags)\<close>.
\<close>

record 'k externals =
  init_batched_kalman_matrices ::
    "np_errmode \<Rightarrow> npfloat list list \<Rightarrow> npfloat list list \<Rightarrow> py_error + 'k"
  batched_kfilter ::
    "np_errmode \<Rightarrow> npfloat array2 \<Rightarrow> 'k \<Rightarrow> bool \<Rightarrow> bool
       \<Rightarrow> py_error + (npfloat list \<times> npfloat array2)"
  ar_transparams :: "np_errmode \<Rightarrow> npfloat list \<Rightarrow> py_error + npfloat list"
  ma_transparams :: "np_errmode \<Rightarrow> npfloat list \<Rightarrow> py_error + npfloat list"
  ar_invtransparams :: "np_errmode \<Rightarrow> npfloat list \<Rightarrow> py_error + npfloat list"
  ma_invtransparams :: "np_errmode \<Rightarrow> npfloat list \<Rightarrow> py_error + npfloat list"
  batched_fmin_lbfgs_b ::
    "(npfloat list \<Rightarrow> npfloat list io) \<Rightarrow> npfloat list \<Rightarrow> nat
       \<Rightarrow> (npfloat list \<Rightarrow> npfloat list io) \<Rightarrow> int
       \<Rightarrow> (npfloat list \<times> int list \<times> int list) io"

section \<open>Likelihood evaluator\<close>

text \<open>
  \<^verbatim>\<open>
  def _model_complexity(order):
      (p, _, q) = order
      return 1 + p + q
  \<close>
\<close>

definition model_complexity :: "py_order \<Rightarrow> py_error + nat" where
  "model_complexity order = ebind (unpack_order order) (\<lambda>(p, _, q). Inr (1 + p + q))"

text \<open>
  \<^verbatim>\<open>
  def assert_same_d(b_order):
      b_d = [d for _, d, _ in b_order]
      assert (np.array(b_d) == b_d[0]).all()
  \<close>
  The comprehension raises ValueError on a placeholder entry, \<open>b_d[0]\<close> raises IndexError
  on an empty batch, the assertion raises AssertionError.
\<close>

definition assert_same_d :: "py_order list \<Rightarrow> py_error + unit" where
  "assert_same_d b_order =
     ebind (mapE (\<lambda>order. ebind (unpack_order order) (\<lambda>(_, d, _). Inr d)) b_order) (\<lambda>b_d.
     ebind (item b_d 0) (\<lambda>d0.
       if list_all (\<lambda>d. d = d0) b_d then Inr () else Inl AssertionError))"

text \<open>
  \<^verbatim>\<open>
  def diffAndCenter(y, num_batches, mu, ar_params):
      y_diff = np.diff(y, axis=0)
      B0 = np.zeros(num_batches)
      for (i, (mu, ar)) in enumerate(zip(mu, ar_params)):
          B0[i] = mu
      return np.asfortranarray(y_diff-B0)
  \<close>
  \<open>np.asfortranarray\<close> changes the memory layout only.
\<close>

fun diffAndCenter_loop ::
  "(nat \<times> npfloat \<times> npfloat list) list \<Rightarrow> npfloat list \<Rightarrow> py_error + npfloat list" where
  "diffAndCenter_loop [] B0 = Inr B0"
| "diffAndCenter_loop ((i, (mu, ar)) # rest) B0 =
     (if i < length B0 then diffAndCenter_loop rest (B0[i := mu]) else Inl IndexError)"

definition diffAndCenter ::
  "npfloat array2 \<Rightarrow> nat \<Rightarrow> npfloat list \<Rightarrow> npfloat list list \<Rightarrow> py_error + npfloat array2" where
  "diffAndCenter y num_batches mu ar_params =
     (let y_diff = np_diff0 y in
      ebind (diffAndCenter_loop (zip [0..<length mu] (zip mu ar_params))
               (replicate num_batches (Fin 0))) (\<lambda>B0.
        broadcast2 fl_sub y_diff (as_row B0)))"

text \<open>
  \<^verbatim>\<open>
  def run_kalman(model, gpu=True, initP_kalman_iterations=False):
      b_ar_params = model.ar_params
      b_ma_params = model.ma_params
      Zb, Rb, Tb, r = init_batched_kalman_matrices(b_ar_params, b_ma_params)
      assert_same_d(model.order)
      _, d, _ = model.order[0]
      if d == 0:
          ll_b, vs = batched_kfilter(np.asfortranarray(model.y), Zb, Rb, Tb, r,
                                     gpu, initP_kalman_iterations)
      elif d == 1:
          y_diff_centered = diffAndCenter(model.y, model.num_batches,
                                          model.mu, model.ar_params)
          ll_b, vs = batched_kfilter(y_diff_centered, Zb, Rb, Tb, r,
                                     gpu, initP_kalman_iterations)
      else:
          raise NotImplementedError("ARIMA only support d==0,1")
      return ll_b, vs
  \<close>
\<close>

definition run_kalman ::
  "'k externals \<Rightarrow> arima_model \<Rightarrow> bool \<Rightarrow> bool \<Rightarrow> (npfloat list \<times> npfloat array2) io" where
  "run_kalman E model gpu initP_kalman_iterations =
     bnd (call_ext Call_init_batched_kalman_matrices
            (\<lambda>m. init_batched_kalman_matrices E m (model_ar_params model) (model_ma_params model)))
       (\<lambda>K.
     bnd (lift (assert_same_d (model_order model))) (\<lambda>_.
     bnd (lift (ebind (item (model_order model) 0) unpack_order)) (\<lambda>(_, d, _).
       if d = 0 then
         call_ext Call_batched_kfilter
           (\<lambda>m. batched_kfilter E m (model_y model) K gpu initP_kalman_iterations)
       else if d = 1 then
         bnd (lift (diffAndCenter (model_y model) (model_num_batches model)
                      (model_mu model) (model_ar_params model))) (\<lambda>y_diff_centered.
           call_ext Call_batched_kfilter
             (\<lambda>m. batched_kfilter E m y_diff_centered K gpu initP_kalman_iterations))
       else lift (Inl NotImplementedError))))"

text \<open>
  \<^verbatim>\<open>
  def loglike(model, gpu=True):
      ll_b, _ = run_kalman(model, gpu=gpu)
      return ll_b
  \<close>
\<close>

definition loglike :: "'k externals \<Rightarrow> arima_model \<Rightarrow> bool \<Rightarrow> npfloat list io" where
  "loglike E model gpu = bnd (run_kalman E model gpu False) (\<lambda>(ll_b, _). ret ll_b)"

text \<open>
  \<^verbatim>\<open>
  @property
  def bic(self):
      llb = loglike(self)
      return [-2 * lli + np.log(len(self.y)) * (_model_complexity(self.order[i]))
              for (i, lli) in enumerate(llb)]

  @property
  def aic(self):
      llb = loglike(self)
      return [-2 * lli + 2 * (_model_complexity(self.order[i]))
              for (i, lli) in enumerate(llb)]
  \<close>
  \<open>len(self.y)\<close> is the number of rows; \<open>np.log(0)\<close> is \<open>-inf\<close>.
\<close>

definition np_log_nat :: "nat \<Rightarrow> npfloat" where
  "np_log_nat n = (if n = 0 then NInf else Fin (ln (real n)))"

definition bic :: "'k externals \<Rightarrow> arima_model \<Rightarrow> npfloat list io" where
  "bic E self =
     bnd (loglike E self True) (\<lambda>llb.
       lift (mapE (\<lambda>(i, lli).
               ebind (ebind (item (model_order self) i) model_complexity) (\<lambda>k.
                 Inr (fl_add (fl_mul (Fin (- 2)) lli)
                        (fl_mul (np_log_nat (shape0 (model_y self))) (Fin (real k))))))
             (zip [0..<length llb] llb)))"

definition aic :: "'k externals \<Rightarrow> arima_model \<Rightarrow> npfloat list io" where
  "aic E self =
     bnd (loglike E self True) (\<lambda>llb.
       lift (mapE (\<lambda>(i, lli).
               ebind (ebind (item (model_order self) i) model_complexity) (\<lambda>k.
                 Inr (fl_add (fl_mul (Fin (- 2)) lli) (Fin (2 * real k)))))
             (zip [0..<length llb] llb)))"

section \<open>Predictor and forecaster\<close>

text \<open>
  \<^verbatim>\<open>
  def predict_in_sample(model, gpu=True):
      _, vs = run_kalman(model, gpu=gpu)
      assert_same_d(model.order)
      _, d, _ = model.order[0]
      if d == 0:
          y_p = model.y - vs
      elif d == 1:
          y_diff = np.diff(model.y, axis=0)
          predict = (y_diff - vs)
          y_p = model.y[0:-1, :] + predict
      else:
          raise NotImplementedError("Only support d==0,1")
      if d == 1:
          fc1 = np.zeros(model.num_batches)
          for i in range(model.num_batches):
              fc1[i] = fc_single(1, model.order[i], y_diff[:,i],
                                 vs[:,i], model.mu[i],
                                 model.ma_params[i],
                                 model.ar_params[i])
          final_term = model.y[-1, :] + fc1
          temp = np.zeros((y_p.shape[0]+1, y_p.shape[1]))
          temp[:-1, :] = y_p
          temp[-1, :] = final_term
          y_p = temp
      model.yp = y_p
      return y_p
  \<close>
  Storing an array into the scalar slot \<open>fc1[i]\<close> needs an array of one element.
  \<open>predict_values\<close> is the body up to the computation of \<open>y_p\<close>; \<open>predict_in_sample\<close>
  returns \<open>y_p\<close> together with the model object as the assignment \<open>model.yp = y_p\<close>
  leaves it.
\<close>

definition scalar_of :: "'a list \<Rightarrow> py_error + 'a" where
  "scalar_of v = (case v of [s] \<Rightarrow> Inr s | _ \<Rightarrow> Inl ValueError)"

fun predict_fc1_loop ::
  "arima_model \<Rightarrow> npfloat array2 \<Rightarrow> npfloat array2 \<Rightarrow> nat list \<Rightarrow> npfloat list
     \<Rightarrow> py_error + npfloat list" where
  "predict_fc1_loop model y_diff vs [] fc1 = Inr fc1"
| "predict_fc1_loop model y_diff vs (i # is) fc1 =
     ebind (item (model_order model) i) (\<lambda>order_i.
     ebind (column y_diff i) (\<lambda>y_diff_i.
     ebind (column vs i) (\<lambda>vs_i.
     ebind (item (model_mu model) i) (\<lambda>mu_i.
     ebind (item (model_ma_params model) i) (\<lambda>ma_i.
     ebind (item (model_ar_params model) i) (\<lambda>ar_i.
     ebind (fc_single 1 order_i y_diff_i vs_i mu_i ma_i ar_i) (\<lambda>fc.
     ebind (scalar_of fc) (\<lambda>s.
       predict_fc1_loop model y_diff vs is (fc1[i := s])))))))))"

definition append_row :: "'a array2 \<Rightarrow> 'a list \<Rightarrow> py_error + 'a array2" where
  "append_row a v =
     (if length v = shape1 a then Inr (Array2 (shape0 a + 1) (shape1 a) (rows a @ [v]))
      else if length v = 1 then
        Inr (Array2 (shape0 a + 1) (shape1 a) (rows a @ [replicate (shape1 a) (hd v)]))
      else Inl ValueError)"

definition predict_values :: "'k externals \<Rightarrow> arima_model \<Rightarrow> bool \<Rightarrow> npfloat array2 io" where
  "predict_values E model gpu =
     bnd (run_kalman E model gpu False) (\<lambda>(_, vs).
     bnd (lift (assert_same_d (model_order model))) (\<lambda>_.
     bnd (lift (ebind (item (model_order model) 0) unpack_order)) (\<lambda>(_, d, _).
       if d = 0 then lift (broadcast2 fl_sub (model_y model) vs)
       else if d = 1 then
         (let y_diff = np_diff0 (model_y model) in
          lift (
            ebind (broadcast2 fl_sub y_diff vs) (\<lambda>predict.
            ebind (broadcast2 fl_add (but_last_row (model_y model)) predict) (\<lambda>y_p.
            ebind (predict_fc1_loop model y_diff vs [0..<model_num_batches model]
                     (replicate (model_num_batches model) (Fin 0))) (\<lambda>fc1.
            ebind (last_row (model_y model)) (\<lambda>y_last.
            ebind (broadcast1 fl_add y_last fc1) (\<lambda>final_term.
              append_row y_p final_term)))))))
       else lift (Inl NotImplementedError))))"

definition predict_in_sample ::
  "'k externals \<Rightarrow> arima_model \<Rightarrow> bool \<Rightarrow> (npfloat array2 \<times> arima_model) io" where
  "predict_in_sample E model gpu =
     bnd (predict_values E model gpu) (\<lambda>y_p.
       ret (y_p, model\<lparr>model_yp := Some y_p\<rparr>))"

text \<open>
  \<^verbatim>\<open>
  def forecast(model, nsteps):
      y_fc_b = np.zeros((nsteps, model.num_batches))
      _, vs = run_kalman(model)
      for i in range(model.num_batches):
          p, d, q = model.order[i]
          vsi = vs[:,i]
          ydiff_i = np.diff(model.y[:, i],axis=0)
          fc = fc_single(nsteps, (p,d,q), ydiff_i, vsi,
                         model.mu[i], model.ma_params[i],
                         model.ar_params[i])
          if model.order[i][1] > 0: # d > 0
              fc = undifference(fc, model.y[-1,i])[1:]
          y_fc_b[:, i] = fc[:]
      return y_fc_b
  \<close>
\<close>

fun forecast_loop ::
  "arima_model \<Rightarrow> nat \<Rightarrow> npfloat array2 \<Rightarrow> nat list \<Rightarrow> npfloat array2
     \<Rightarrow> py_error + npfloat array2" where
  "forecast_loop model nsteps vs [] y_fc_b = Inr y_fc_b"
| "forecast_loop model nsteps vs (i # is) y_fc_b =
     ebind (ebind (item (model_order model) i) unpack_order) (\<lambda>(p, d, q).
     ebind (column vs i) (\<lambda>vsi.
     ebind (column (model_y model) i) (\<lambda>y_i.
     (let ydiff_i = np_diff y_i in
     ebind (item (model_mu model) i) (\<lambda>mu_i.
     ebind (item (model_ma_params model) i) (\<lambda>ma_i.
     ebind (item (model_ar_params model) i) (\<lambda>ar_i.
     ebind (fc_single nsteps (Order p d q) ydiff_i vsi mu_i ma_i ar_i) (\<lambda>fc.
     ebind (if d > 0
            then ebind (last_item (model_y model) i) (\<lambda>y_last.
                   Inr (drop 1 (undifference fc y_last)))
            else Inr fc) (\<lambda>fc'.
     ebind (assign_column y_fc_b i fc') (\<lambda>y_fc_b'.
       forecast_loop model nsteps vs is y_fc_b'))))))))))"

definition forecast :: "'k externals \<Rightarrow> arima_model \<Rightarrow> nat \<Rightarrow> npfloat array2 io" where
  "forecast E model nsteps =
     (let y_fc_b = Array2 nsteps (model_num_batches model)
                     (replicate nsteps (replicate (model_num_batches model) (Fin 0)))
      in bnd (run_kalman E model True False) (\<lambda>(_, vs).
           lift (forecast_loop model nsteps vs [0..<model_num_batches model] y_fc_b)))"

section \<open>A small instance of the collaborators\<close>

text \<open>
  Used to run the model on concrete inputs. The state-space matrices are stood for by the
  sum of each member's AR coefficients; the kernel reports that sum plus \<open>bias\<close> as the
  member's log-likelihood (a NaN bias makes every log-likelihood NaN), with zero
  innovations of the shape of its input. The transforms are the identity. The optimizer evaluates the objective and the gradient once at the starting
  point and returns that point, one iteration per member and the status flags it is given.
\<close>

definition demo_externals :: "int list \<Rightarrow> npfloat \<Rightarrow> (npfloat list) externals" where
  "demo_externals flags bias =
     \<lparr> init_batched_kalman_matrices = (\<lambda>m ar ma. Inr (map fl_sum ar)),
       batched_kfilter = (\<lambda>m ys K gpu initP.
          Inr (map (fl_add bias) K,
               Array2 (shape0 ys) (shape1 ys)
                 (replicate (shape0 ys) (replicate (shape1 ys) (Fin 0))))),
       ar_transparams = (\<lambda>m x. Inr x),
       ma_transparams = (\<lambda>m x. Inr x),
       ar_invtransparams = (\<lambda>m x. Inr x),
       ma_invtransparams = (\<lambda>m x. Inr x),
       batched_fmin_lbfgs_b = (\<lambda>f x0 nb gf iprint.
          bnd (f x0) (\<lambda>_. bnd (gf x0) (\<lambda>_. ret (x0, replicate nb 1, flags)))) \<rparr>"

text \<open>The external calls of one evaluation of \<open>ll_f\<close> with \<open>trans=True\<close> on a batch of two
  members: the two transforms of each member, the state-space matrices, the kernel.\<close>

definition demo_ll_f_calls :: "(ext_call \<times> np_errmode) list" where
  "demo_ll_f_calls =
     [(Call_ar_transparams, ErrRaise), (Call_ma_transparams, ErrRaise),
      (Call_ar_transparams, ErrRaise), (Call_ma_transparams, ErrRaise),
      (Call_init_batched_kalman_matrices, ErrWarn), (Call_batched_kfilter, ErrWarn)]"

definition world0 :: world where
  "world0 = \<lparr> errmode = ErrWarn, stdout = [], calls = [] \<rparr>"

section \<open>Arithmetic under the error mode\<close>

text \<open>
  Under \<open>np.seterr(all='raise')\<close> numpy raises FloatingPointError on an invalid operation
  (a NaN made from operands that are not NaN) and on the division of a finite non-zero
  value by zero; under every other mode the special value is returned. The functions of
  the fitting path, where the mode is set, consult it. The scoring, prediction and
  forecasting functions above are modelled with quiet arithmetic, as under the mode
  \<open>'warn'\<close>, which is numpy's default and the mode \<open>fit\<close> leaves behind.
\<close>

definition get_errmode :: "np_errmode io" where
  "get_errmode w = Inr (errmode w, w)"

definition fp_trap :: "np_errmode \<Rightarrow> npfloat \<Rightarrow> npfloat \<Rightarrow> npfloat \<Rightarrow> py_error + npfloat" where
  "fp_trap mode a b r =
     (if mode = ErrRaise \<and> isnan r \<and> \<not> isnan a \<and> \<not> isnan b then Inl FloatingPointError
      else Inr r)"

definition np_add :: "np_errmode \<Rightarrow> npfloat \<Rightarrow> npfloat \<Rightarrow> py_error + npfloat" where
  "np_add mode a b = fp_trap mode a b (fl_add a b)"

definition np_sub :: "np_errmode \<Rightarrow> npfloat \<Rightarrow> npfloat \<Rightarrow> py_error + npfloat" where
  "np_sub mode a b = fp_trap mode a b (fl_sub a b)"

definition np_div :: "np_errmode \<Rightarrow> npfloat \<Rightarrow> npfloat \<Rightarrow> py_error + npfloat" where
  "np_div mode a b =
     (if mode = ErrRaise \<and> b = Fin 0 \<and> isfinite a \<and> a \<noteq> Fin 0 then Inl FloatingPointError
      else fp_trap mode a b (fl_div a b))"

text \<open>Elementwise on one-dimensional arrays, with broadcasting; and \<open>a.sum()\<close>.\<close>

definition np_vec ::
  "(npfloat \<Rightarrow> npfloat \<Rightarrow> py_error + npfloat) \<Rightarrow> npfloat list \<Rightarrow> npfloat list
     \<Rightarrow> py_error + npfloat list" where
  "np_vec f a b =
     (case bshape (length a) (length b) of
        None \<Rightarrow> Inl ValueError
      | Some n \<Rightarrow> mapE (\<lambda>i. f (bget1 a i) (bget1 b i)) [0..<n])"

fun np_sum_from :: "np_errmode \<Rightarrow> npfloat \<Rightarrow> npfloat list \<Rightarrow> py_error + npfloat" where
  "np_sum_from mode acc [] = Inr acc"
| "np_sum_from mode acc (v # vs) = ebind (np_add mode acc v) (\<lambda>a. np_sum_from mode a vs)"

definition np_sum :: "np_errmode \<Rightarrow> npfloat list \<Rightarrow> py_error + npfloat" where
  "np_sum mode a = np_sum_from mode (Fin 0) a"

section \<open>Stationarity transform over a batch\<close>

text \<open>
  \<^verbatim>\<open>
  def batch_trans(p, q, nb, x):
      mu, ar, ma = unpack(p, q, nb, x)
      ar2 = []
      ma2 = []
      np.seterr(all='raise')
      for ib in range(nb):
          ari = sm_tools._ar_transparams(np.copy(ar[ib]))
          mai = sm_tools._ma_transparams(np.copy(ma[ib]))
          ar2.append(ari)
          ma2.append(mai)
      np.seterr(all='warn')
      Tx = pack(p, q, nb, mu, ar2, ma2)
      return Tx
  \<close>
\<close>

fun batch_trans_loop ::
  "'k externals \<Rightarrow> npfloat list list \<Rightarrow> npfloat list list \<Rightarrow> nat list
     \<Rightarrow> npfloat list list \<times> npfloat list list
     \<Rightarrow> (npfloat list list \<times> npfloat list list) io" where
  "batch_trans_loop E ar ma [] st = ret st"
| "batch_trans_loop E ar ma (ib # ibs) (ar2, ma2) =
     bnd (lift (item ar ib)) (\<lambda>ar_ib.
     bnd (call_ext Call_ar_transparams (\<lambda>m. ar_transparams E m ar_ib)) (\<lambda>ari.
     bnd (lift (item ma ib)) (\<lambda>ma_ib.
     bnd (call_ext Call_ma_transparams (\<lambda>m. ma_transparams E m ma_ib)) (\<lambda>mai.
       batch_trans_loop E ar ma ibs (ar2 @ [ari], ma2 @ [mai])))))"

definition batch_trans ::
  "'k externals \<Rightarrow> nat \<Rightarrow> nat \<Rightarrow> nat \<Rightarrow> npfloat list \<Rightarrow> npfloat list io" where
  "batch_trans E p q nb x =
     bnd (lift (unpack p q nb x)) (\<lambda>(mu, ar, ma).
     bnd (seterr ErrRaise) (\<lambda>_.
     bnd (batch_trans_loop E ar ma [0..<nb] ([], [])) (\<lambda>(ar2, ma2).
     bnd (seterr ErrWarn) (\<lambda>_.
       lift (pack p q nb mu ar2 ma2)))))"

text \<open>
  \<^verbatim>\<open>
  def batch_invtrans(p, q, nb, x):
      mu, ar, ma = unpack(p, q, nb, x)
      ar2 = []
      ma2 = []
      for ib in range(nb):
          ari = sm_tools._ar_invtransparams(np.copy(ar[ib]))
          mai = sm_tools._ma_invtransparams(np.copy(ma[ib]))
          assert ((not np.isinf(ari)) and (not np.isinf(mai)))
          assert ((not np.isnan(ari)) and (not np.isnan(mai)))
          ar2.append(ari)
          ma2.append(mai)
      Tx = pack(p, q, nb, mu, ar2, ma2)
      return Tx
  \<close>
  \<open>not a\<close> on a numpy array takes its truth value: that of its element when it has one,
  false when it has none, and a ValueError when it has more than one.
\<close>

definition array_not :: "bool list \<Rightarrow> py_error + bool" where
  "array_not a = (case a of [] \<Rightarrow> Inr True | [b] \<Rightarrow> Inr (\<not> b) | _ \<Rightarrow> Inl ValueError)"

definition assert_not_any :: "(npfloat \<Rightarrow> bool) \<Rightarrow> npfloat list \<Rightarrow> npfloat list \<Rightarrow> py_error + unit" where
  "assert_not_any test ari mai =
     ebind (array_not (map test ari)) (\<lambda>a.
       if \<not> a then Inl AssertionError
       else ebind (array_not (map test mai)) (\<lambda>b.
              if b then Inr () else Inl AssertionError))"

fun batch_invtrans_loop ::
  "'k externals \<Rightarrow> npfloat list list \<Rightarrow> npfloat list list \<Rightarrow> nat list
     \<Rightarrow> npfloat list list \<times> npfloat list list
     \<Rightarrow> (npfloat list list \<times> npfloat list list) io" where
  "batch_invtrans_loop E ar ma [] st = ret st"
| "batch_invtrans_loop E ar ma (ib # ibs) (ar2, ma2) =
     bnd (lift (item ar ib)) (\<lambda>ar_ib.
     bnd (call_ext Call_ar_invtransparams (\<lambda>m. ar_invtransparams E m ar_ib)) (\<lambda>ari.
     bnd (lift (item ma ib)) (\<lambda>ma_ib.
     bnd (call_ext Call_ma_invtransparams (\<lambda>m. ma_invtransparams E m ma_ib)) (\<lambda>mai.
     bnd (lift (assert_not_any isinf ari mai)) (\<lambda>_.
     bnd (lift (assert_not_any isnan ari mai)) (\<lambda>_.
       batch_invtrans_loop E ar ma ibs (ar2 @ [ari], ma2 @ [mai])))))))"

definition batch_invtrans ::
  "'k externals \<Rightarrow> nat \<Rightarrow> nat \<Rightarrow> nat \<Rightarrow> npfloat list \<Rightarrow> npfloat list io" where
  "batch_invtrans E p q nb x =
     bnd (lift (unpack p q nb x)) (\<lambda>(mu, ar, ma).
     bnd (batch_invtrans_loop E ar ma [0..<nb] ([], [])) (\<lambda>(ar2, ma2).
       lift (pack p q nb mu ar2 ma2)))"

section \<open>Batched log-likelihood and its finite-difference gradient\<close>

text \<open>
  \<^verbatim>\<open>
  def ll_f(num_batches, num_parameters, order, y, x,
           return_negative_sum=False, gpu=True, trans=False):
      if trans:
          p, _, q = order
          x = batch_trans(p, q, num_batches, np.copy(x))
      p, _, q = order
      mu, arparams, maparams = unpack(p, q, num_batches, x)
      b_model = ARIMAModel([order]*num_batches, mu, arparams, maparams, y)
      ll_b = loglike(b_model, gpu)
      if return_negative_sum:
          return -ll_b.sum()
      else:
          return ll_b
  \<close>
  The result is a scalar or an array. The \<open>pynvtx\<close> range markers are profiling
  annotations without effect on the computation and are left out; \<open>trans_flag\<close> is the
  argument \<^verbatim>\<open>trans\<close>.
\<close>

datatype np_value = Scalar npfloat | Vector "npfloat list"

definition ll_f ::
  "'k externals \<Rightarrow> nat \<Rightarrow> nat \<Rightarrow> py_order \<Rightarrow> npfloat array2 \<Rightarrow> npfloat list \<Rightarrow> bool \<Rightarrow> bool
     \<Rightarrow> bool \<Rightarrow> np_value io" where
  "ll_f E num_batches num_parameters order y x return_negative_sum gpu trans_flag =
     bnd (if trans_flag
          then bnd (lift (unpack_order order)) (\<lambda>(p, _, q). batch_trans E p q num_batches x)
          else ret x) (\<lambda>x.
     bnd (lift (unpack_order order)) (\<lambda>(p, _, q).
     bnd (lift (unpack p q num_batches x)) (\<lambda>(mu, arparams, maparams).
     (let b_model = ARIMAModel (replicate num_batches order) mu arparams maparams y in
     bnd (loglike E b_model gpu) (\<lambda>ll_b.
       if return_negative_sum
       then bnd get_errmode (\<lambda>m.
            bnd (lift (np_sum m ll_b)) (\<lambda>s. ret (Scalar (fl_neg s))))
       else ret (Vector ll_b))))))"

text \<open>
  \<^verbatim>\<open>
  def ll_gf(num_batches, num_parameters, order, y, x, h=1e-8, gpu=True, trans=False):
      fd = np.zeros(num_parameters)
      grad = np.zeros(len(x))
      assert (len(x) / num_parameters) == float(num_batches)
      for i in range(num_parameters):
          fd[i] = h
          fdph = np.tile(fd, num_batches)
          fd[i] = 0.0
          ll_b_ph = ll_f(num_batches, num_parameters, order, y, x+fdph, gpu=gpu, trans=trans)
          ll_b_mh = ll_f(num_batches, num_parameters, order, y, x-fdph, gpu=gpu, trans=trans)
          np.seterr(all='raise')
          grad_i_b = (ll_b_ph - ll_b_mh)/(2*h)
          if num_batches == 1:
              grad[i] = grad_i_b
          else:
              assert len(grad[i::num_parameters]) == len(grad_i_b)
              grad[i::num_parameters] = grad_i_b
      return grad
  \<close>
  \<open>strided i step n\<close> are the indices \<open>i, i + step, ...\<close> below \<open>n\<close> of \<open>grad[i::step]\<close> in an
  array of length \<open>n\<close>, \<open>(n - i + step - 1) // step\<close> of them. The loop
  state is \<open>(fd, grad)\<close>. \<open>ll_f\<close> is called without \<open>return_negative_sum\<close> and returns an
  array; \<open>2*h\<close> is a product of Python floats, which does not trap.
\<close>

definition strided :: "nat \<Rightarrow> nat \<Rightarrow> nat \<Rightarrow> nat list" where
  "strided i step n = map (\<lambda>k. i + k * step) [0..<(n - i + step - 1) div step]"

fun assign_indices :: "'a list \<Rightarrow> nat list \<Rightarrow> 'a list \<Rightarrow> 'a list" where
  "assign_indices a (j # js) (v # vs) = assign_indices (a[j := v]) js vs"
| "assign_indices a _ _ = a"

definition np_tile :: "'a list \<Rightarrow> nat \<Rightarrow> 'a list" where
  "np_tile a n = concat (replicate n a)"

definition central_difference ::
  "np_errmode \<Rightarrow> npfloat list \<Rightarrow> npfloat list \<Rightarrow> npfloat \<Rightarrow> py_error + npfloat list" where
  "central_difference mode ll_b_ph ll_b_mh h =
     ebind (np_vec (np_sub mode) ll_b_ph ll_b_mh) (\<lambda>diff.
       mapE (\<lambda>v. np_div mode v (fl_mul (Fin 2) h)) diff)"

definition store_gradient ::
  "nat \<Rightarrow> nat \<Rightarrow> nat \<Rightarrow> npfloat list \<Rightarrow> npfloat list \<Rightarrow> py_error + npfloat list" where
  "store_gradient num_batches num_parameters i grad grad_i_b =
     (if num_batches = 1 then
        ebind (scalar_of grad_i_b) (\<lambda>s.
          if i < length grad then Inr (grad[i := s]) else Inl IndexError)
      else if length (strided i num_parameters (length grad)) = length grad_i_b then
        Inr (assign_indices grad (strided i num_parameters (length grad)) grad_i_b)
      else Inl AssertionError)"

fun ll_gf_loop ::
  "'k externals \<Rightarrow> nat \<Rightarrow> nat \<Rightarrow> py_order \<Rightarrow> npfloat array2 \<Rightarrow> npfloat list \<Rightarrow> npfloat \<Rightarrow> bool
     \<Rightarrow> bool \<Rightarrow> nat list \<Rightarrow> npfloat list \<times> npfloat list
     \<Rightarrow> (npfloat list \<times> npfloat list) io" where
  "ll_gf_loop E num_batches num_parameters order y x h gpu trans_flag [] st = ret st"
| "ll_gf_loop E num_batches num_parameters order y x h gpu trans_flag (i # is) (fd, grad) =
     (let fd1 = fd[i := h];
          fdph = np_tile fd1 num_batches;
          fd2 = fd1[i := Fin 0]
      in
      bnd get_errmode (\<lambda>m0.
      bnd (lift (np_vec (np_add m0) x fdph)) (\<lambda>x_ph.
      bnd (ll_f E num_batches num_parameters order y x_ph False gpu trans_flag) (\<lambda>ll_b_ph.
      bnd get_errmode (\<lambda>m1.
      bnd (lift (np_vec (np_sub m1) x fdph)) (\<lambda>x_mh.
      bnd (ll_f E num_batches num_parameters order y x_mh False gpu trans_flag) (\<lambda>ll_b_mh.
      bnd (seterr ErrRaise) (\<lambda>_.
      bnd get_errmode (\<lambda>m2.
      bnd (lift (case (ll_b_ph, ll_b_mh) of
                   (Vector a, Vector b) \<Rightarrow> central_difference m2 a b h
                 | _ \<Rightarrow> Inl TypeError)) (\<lambda>grad_i_b.
      bnd (lift (store_gradient num_batches num_parameters i grad grad_i_b)) (\<lambda>grad'.
        ll_gf_loop E num_batches num_parameters order y x h gpu trans_flag is
          (fd2, grad'))))))))))))"

definition ll_gf ::
  "'k externals \<Rightarrow> nat \<Rightarrow> nat \<Rightarrow> py_order \<Rightarrow> npfloat array2 \<Rightarrow> npfloat list \<Rightarrow> npfloat \<Rightarrow> bool
     \<Rightarrow> bool \<Rightarrow> npfloat list io" where
  "ll_gf E num_batches num_parameters order y x h gpu trans_flag =
     (let fd = replicate num_parameters (Fin 0);
          grad = replicate (length x) (Fin 0)
      in
      if num_parameters = 0 then lift (Inl ZeroDivisionError)
      else if length x \<noteq> num_batches * num_parameters then lift (Inl AssertionError)
      else
        bnd (ll_gf_loop E num_batches num_parameters order y x h gpu trans_flag
               [0..<num_parameters] (fd, grad)) (\<lambda>(_, grad). ret grad))"

section \<open>Optimizer driver\<close>

text \<open>
  \<^verbatim>\<open>
  def fit(y, order, mu0, ar_params0, ma_params0,
          opt_disp=-1, h=1e-9, gpu=True, alpha_max=1000):
      np.seterr(all='raise')
      p, d, q = order
      num_parameters = 1 + p + q
      num_samples = y.shape[0]
      num_batches = y.shape[1]

      def f(x):
          n_llf = -(ll_f(num_batches, num_parameters, order, y, x, gpu=gpu, trans=True))
          return n_llf/(num_samples-1)

      def gf(x):
          n_gllf = -ll_gf(num_batches, num_parameters, order, y, x, h, gpu=gpu, trans=True)
          return n_gllf/(num_samples-1)

      if not isinstance(mu0, np.ndarray):
          ar0_2 = sm_tools._ar_invtransparams(np.copy(ar_params0))
          ma0_2 = sm_tools._ma_invtransparams(np.copy(ma_params0))
          x0 = np.r_[mu0, ar0_2, ma0_2]
          x0 = np.tile(x0, num_batches)
      else:
          x0 = pack(p, q, num_batches, mu0, ar_params0, ma_params0)
          x0 = batch_invtrans(p, q, num_batches, x0)

      if ((np.isnan(x0).any()) or (np.isinf(x0).any())):
              raise FloatingPointError("Initial condition 'x0' has NaN or Inf.")

      x, niter, flags = batched_fmin_lbfgs_b(f, x0, num_batches, gf,
                                            iprint=opt_disp, factr=1000)

      if (flags != 0).any():
          print("WARNING(`fit()`): Some batch members had optimizer problems.")

      Tx = batch_trans(p, q, num_batches, x)
      mu, ar, ma = unpack(p, q, num_batches, Tx)

      fit_model = ARIMAModel(num_batches*[order], mu, ar, ma, y)
      fit_model.niter = niter
      return fit_model
  \<close>
  The initial parameters come in two forms, told apart by \<open>isinstance(mu0, np.ndarray)\<close>:
  one scalar mean and one pair of coefficient vectors shared by the batch, or arrays with
  an entry per member.
\<close>

datatype init_params =
    Shared npfloat "npfloat list" "npfloat list"
  | PerMember "npfloat list" "npfloat list list" "npfloat list list"

definition scale_by_samples :: "nat \<Rightarrow> npfloat list \<Rightarrow> npfloat list io" where
  "scale_by_samples num_samples v =
     bnd get_errmode (\<lambda>m.
       lift (mapE (\<lambda>a. np_div m (fl_neg a) (Fin (real_of_int (int num_samples - 1)))) v))"

definition fit_f ::
  "'k externals \<Rightarrow> nat \<Rightarrow> nat \<Rightarrow> nat \<Rightarrow> py_order \<Rightarrow> npfloat array2 \<Rightarrow> bool \<Rightarrow> npfloat list
     \<Rightarrow> npfloat list io" where
  "fit_f E num_batches num_parameters num_samples order y gpu x =
     bnd (ll_f E num_batches num_parameters order y x False gpu True) (\<lambda>r.
       case r of
         Vector ll \<Rightarrow> scale_by_samples num_samples ll
       | Scalar s \<Rightarrow> scale_by_samples num_samples [s])"

definition fit_gf ::
  "'k externals \<Rightarrow> nat \<Rightarrow> nat \<Rightarrow> nat \<Rightarrow> py_order \<Rightarrow> npfloat array2 \<Rightarrow> npfloat \<Rightarrow> bool
     \<Rightarrow> npfloat list \<Rightarrow> npfloat list io" where
  "fit_gf E num_batches num_parameters num_samples order y h gpu x =
     bnd (ll_gf E num_batches num_parameters order y x h gpu True) (\<lambda>g.
       scale_by_samples num_samples g)"

definition log_call :: "ext_call \<Rightarrow> unit io" where
  "log_call c w = Inr ((), w\<lparr>calls := calls w @ [(c, errmode w)]\<rparr>)"

definition fit_x0 :: "'k externals \<Rightarrow> nat \<Rightarrow> nat \<Rightarrow> nat \<Rightarrow> init_params \<Rightarrow> npfloat list io" where
  "fit_x0 E p q num_batches init =
     (case init of
        Shared mu0 ar_params0 ma_params0 \<Rightarrow>
          bnd (call_ext Call_ar_invtransparams (\<lambda>m. ar_invtransparams E m ar_params0)) (\<lambda>ar0_2.
          bnd (call_ext Call_ma_invtransparams (\<lambda>m. ma_invtransparams E m ma_params0)) (\<lambda>ma0_2.
            ret (np_tile ([mu0] @ ar0_2 @ ma0_2) num_batches)))
      | PerMember mu0 ar_params0 ma_params0 \<Rightarrow>
          bnd (lift (pack p q num_batches mu0 ar_params0 ma_params0)) (\<lambda>x0.
            batch_invtrans E p q num_batches x0))"

definition fit ::
  "'k externals \<Rightarrow> npfloat array2 \<Rightarrow> py_order \<Rightarrow> init_params \<Rightarrow> int \<Rightarrow> npfloat \<Rightarrow> bool \<Rightarrow> int
     \<Rightarrow> arima_model io" where
  "fit E y order init opt_disp h gpu alpha_max =
     bnd (seterr ErrRaise) (\<lambda>_.
     bnd (lift (unpack_order order)) (\<lambda>(p, d, q).
     (let num_parameters = 1 + p + q;
          num_samples = shape0 y;
          num_batches = shape1 y;
          f = fit_f E num_batches num_parameters num_samples order y gpu;
          gf = fit_gf E num_batches num_parameters num_samples order y h gpu
      in
      bnd (fit_x0 E p q num_batches init) (\<lambda>x0.
      if list_ex isnan x0 \<or> list_ex isinf x0 then lift (Inl FloatingPointError)
      else
        bnd (log_call Call_batched_fmin_lbfgs_b) (\<lambda>_.
        bnd (batched_fmin_lbfgs_b E f x0 num_batches gf opt_disp) (\<lambda>(x, niter, flags).
        bnd (if list_ex (\<lambda>flag. flag \<noteq> 0) flags
             then print_line ''WARNING(`fit()`): Some batch members had optimizer problems.''
             else ret ()) (\<lambda>_.
        bnd (batch_trans E p q num_batches x) (\<lambda>Tx.
        bnd (lift (unpack p q num_batches Tx)) (\<lambda>(mu, ar, ma).
          (let fit_model = ARIMAModel (replicate num_batches order) mu ar ma y
           in ret (fit_model\<lparr>model_niter := Some niter\<rparr>)))))))))))"

section \<open>Model selector\<close>

text \<open>
  \<^verbatim>\<open>
  def grid_search(y_b, d=1, max_p=3, max_q=3, method="aic"):
      num_batches = y_b.shape[1]
      best_ic = np.full(num_batches, np.finfo(np.float64).max/2)
      best_model = ARIMAModel([[]]*num_batches, np.zeros(num_batches),
                              [[]]*num_batches, [[]]*num_batches, y_b)
      for p in range(0, max_p):
          arparams = np.zeros(p)
          for q in range(0, max_q):
              maparams = np.zeros(q)
              if p == 0 and q == 0:
                  continue
              b_model = fit(y_b, (p, d, q), 0.0, arparams, maparams)
              if method == "aic":
                  ic = b_model.aic
              elif method == "bic":
                  ic = b_model.bic
              else:
                  raise NotImplementedError("Method '{}' not supported".format(method))
              for (i, ic_i) in enumerate(ic):
                  if ic_i < best_ic[i]:
                      best_model.order[i] = (p, d, q)
                      best_model.mu[i] = b_model.mu[i]
                      best_model.ar_params[i] = b_model.ar_params[i]
                      best_model.ma_params[i] = b_model.ma_params[i]
                      best_ic[i] = ic_i
      return (best_model, best_ic)
  \<close>
  The two nested loops run over the pairs \<open>(p, q)\<close> in order; the state is
  \<open>(best_model, best_ic)\<close>.
\<close>

definition float64_max :: real where
  "float64_max = (2 - 1 / 2 ^ 52) * 2 ^ 1023"

fun grid_update_loop ::
  "nat \<Rightarrow> int \<Rightarrow> nat \<Rightarrow> arima_model \<Rightarrow> (nat \<times> npfloat) list \<Rightarrow> arima_model \<times> npfloat list
     \<Rightarrow> py_error + (arima_model \<times> npfloat list)" where
  "grid_update_loop p d q b_model [] st = Inr st"
| "grid_update_loop p d q b_model ((i, ic_i) # rest) (best_model, best_ic) =
     ebind (item best_ic i) (\<lambda>best_i.
       if fl_less ic_i best_i then
         (if i < length (model_order best_model) then
            ebind (item (model_mu b_model) i) (\<lambda>mu_i.
              if i < length (model_mu best_model) then
                ebind (item (model_ar_params b_model) i) (\<lambda>ar_i.
                  if i < length (model_ar_params best_model) then
                    ebind (item (model_ma_params b_model) i) (\<lambda>ma_i.
                      if i < length (model_ma_params best_model) then
                        grid_update_loop p d q b_model rest
                          (best_model\<lparr> model_order := (model_order best_model)[i := Order p d q],
                                       model_mu := (model_mu best_model)[i := mu_i],
                                       model_ar_params := (model_ar_params best_model)[i := ar_i],
                                       model_ma_params := (model_ma_params best_model)[i := ma_i] \<rparr>,
                           best_ic[i := ic_i])
                      else Inl IndexError)
                  else Inl IndexError)
              else Inl IndexError)
          else Inl IndexError)
       else grid_update_loop p d q b_model rest (best_model, best_ic))"

fun grid_search_loop ::
  "'k externals \<Rightarrow> npfloat array2 \<Rightarrow> int \<Rightarrow> string \<Rightarrow> (nat \<times> nat) list
     \<Rightarrow> arima_model \<times> npfloat list \<Rightarrow> (arima_model \<times> npfloat list) io" where
  "grid_search_loop E y_b d method [] st = ret st"
| "grid_search_loop E y_b d method ((p, q) # rest) st =
     (if p = 0 \<and> q = 0 then grid_search_loop E y_b d method rest st
      else
        bnd (fit E y_b (Order p d q) (Shared (Fin 0) (replicate p (Fin 0)) (replicate q (Fin 0)))
               (- 1) (Fin (1 / 10 ^ 9)) True 1000) (\<lambda>b_model.
        bnd (if method = ''aic'' then aic E b_model
             else if method = ''bic'' then bic E b_model
             else lift (Inl NotImplementedError)) (\<lambda>ic.
        bnd (lift (grid_update_loop p d q b_model (zip [0..<length ic] ic) st)) (\<lambda>st'.
          grid_search_loop E y_b d method rest st'))))"

definition grid_candidates :: "nat \<Rightarrow> nat \<Rightarrow> (nat \<times> nat) list" where
  "grid_candidates max_p max_q = concat (map (\<lambda>p. map (\<lambda>q. (p, q)) [0..<max_q]) [0..<max_p])"

definition grid_search ::
  "'k externals \<Rightarrow> npfloat array2 \<Rightarrow> int \<Rightarrow> nat \<Rightarrow> nat \<Rightarrow> string
     \<Rightarrow> (arima_model \<times> npfloat list) io" where
  "grid_search E y_b d max_p max_q method =
     (let num_batches = shape1 y_b;
          best_ic = replicate num_batches (Fin (float64_max / 2));
          best_model = ARIMAModel (replicate num_batches EmptyOrder)
                         (replicate num_batches (Fin 0))
                         (replicate num_batches []) (replicate num_batches []) y_b
      in grid_search_loop E y_b d method (grid_candidates max_p max_q) (best_model, best_ic))"

text \<open>
  The information criteria that a run of the grid search computes, candidate by
  candidate, from the state it starts in (the scores of the candidates up to the first
  failure, if one fails). It follows \<open>grid_search_loop\<close> and is used to state what the
  search compares.
\<close>

fun grid_scores ::
  "'k externals \<Rightarrow> npfloat array2 \<Rightarrow> int \<Rightarrow> string \<Rightarrow> (nat \<times> nat) list \<Rightarrow> world
     \<Rightarrow> npfloat list list" where
  "grid_scores E y_b d method [] w = []"
| "grid_scores E y_b d method ((p, q) # rest) w =
     (if p = 0 \<and> q = 0 then grid_scores E y_b d method rest w
      else
        (case bnd (fit E y_b (Order p d q)
                     (Shared (Fin 0) (replicate p (Fin 0)) (replicate q (Fin 0)))
                     (- 1) (Fin (1 / 10 ^ 9)) True 1000) (\<lambda>b_model.
                if method = ''aic'' then aic E b_model
                else if method = ''bic'' then bic E b_model
                else lift (Inl NotImplementedError)) w of
           Inl e \<Rightarrow> []
         | Inr (ic, w') \<Rightarrow> ic # grid_scores E y_b d method rest w'))"

section \<open>What the gradient holds\<close>

text \<open>
  The perturbation of parameter position \<open>i\<close>: \<open>h\<close> at that position of every member's
  block, zero elsewhere. \<open>gradient_of_position\<close> says that \<open>g\<close> is the central difference
  \<open>(ll_f(x + perturbation) - ll_f(x - perturbation)) / (2*h)\<close>, member by member, of two
  evaluations made one after the other in some state. \<open>slots_hold\<close> says that the slots
  \<open>i, i + num_parameters, i + 2*num_parameters, ...\<close> of \<open>grad\<close> hold such a \<open>g\<close>.
\<close>

definition perturbation :: "nat \<Rightarrow> nat \<Rightarrow> npfloat \<Rightarrow> nat \<Rightarrow> npfloat list" where
  "perturbation num_batches num_parameters h i =
     np_tile ((replicate num_parameters (Fin 0))[i := h]) num_batches"

definition gradient_of_position ::
  "'k externals \<Rightarrow> nat \<Rightarrow> nat \<Rightarrow> py_order \<Rightarrow> npfloat array2 \<Rightarrow> npfloat list \<Rightarrow> npfloat \<Rightarrow> bool
     \<Rightarrow> bool \<Rightarrow> nat \<Rightarrow> npfloat list \<Rightarrow> bool" where
  "gradient_of_position E num_batches num_parameters order y x h gpu trans_flag i g \<longleftrightarrow>
     (\<exists>w1 w2 w3 x_ph x_mh ll_b_ph ll_b_mh.
        np_vec (np_add (errmode w1)) x (perturbation num_batches num_parameters h i) = Inr x_ph \<and>
        ll_f E num_batches num_parameters order y x_ph False gpu trans_flag w1
          = Inr (Vector ll_b_ph, w2) \<and>
        np_vec (np_sub (errmode w2)) x (perturbation num_batches num_parameters h i) = Inr x_mh \<and>
        ll_f E num_batches num_parameters order y x_mh False gpu trans_flag w2
          = Inr (Vector ll_b_mh, w3) \<and>
        central_difference ErrRaise ll_b_ph ll_b_mh h = Inr g)"

definition slots_hold ::
  "'k externals \<Rightarrow> nat \<Rightarrow> nat \<Rightarrow> py_order \<Rightarrow> npfloat array2 \<Rightarrow> npfloat list \<Rightarrow> npfloat \<Rightarrow> bool
     \<Rightarrow> bool \<Rightarrow> npfloat list \<Rightarrow> nat \<Rightarrow> bool" where
  "slots_hold E num_batches num_parameters order y x h gpu trans_flag grad i \<longleftrightarrow>
     (\<exists>g. gradient_of_position E num_batches num_parameters order y x h gpu trans_flag i g \<and>
          length g = num_batches \<and>
          (\<forall>b<num_batches. grad ! (i + b * num_parameters) = g ! b))"

section \<open>The model object after an operation\<close>



section \<open>Properties of the parameter codec\<close>

lemma drop_concat_blocks:
  "\<forall>b\<in>set bs. length b = n \<Longrightarrow> drop (i * n) (concat bs) = concat (drop i bs)"
proof (induction bs arbitrary: i)
  case Nil then show ?case by simp
next
  case (Cons b bs)
  show ?case
  proof (cases i)
    case 0 then show ?thesis by simp
  next
    case (Suc j)
    with Cons show ?thesis by simp
  qed
qed

lemma length_concat_blocks:
  "\<forall>b\<in>set bs. length b = n \<Longrightarrow> length (concat bs) = length bs * n"
  by (induction bs) simp_all

lemma slice_concat_blocks:
  assumes "\<forall>b\<in>set bs. length b = n" "i < length bs"
  shows "slice (concat bs) (i * n) ((i + 1) * n) = bs ! i"
proof -
  have d: "drop i bs = bs ! i # drop (Suc i) bs" using assms(2) by (simp add: Cons_nth_drop_Suc)
  have "length (bs ! i) = n" using assms by simp
  then show ?thesis using assms(1) d by (simp add: slice_def drop_concat_blocks)
qed

lemma pack_loop_blocks:
  assumes "length mu = nb" "length ar = nb" "length ma = nb"
    and "\<forall>i<nb. length (ar ! i) = p \<and> length (ma ! i) = q"
  shows "length x = (1 + p + q) * nb \<Longrightarrow> k \<le> nb \<Longrightarrow>
     pack_loop p q mu ar ma [k..<nb] x =
       Inr (take (k * (1 + p + q)) x @ concat (map (block mu ar ma) [k..<nb]))"
proof (induction "nb - k" arbitrary: k x)
  case 0
  then show ?case by simp
next
  case (Suc d)
  then have k: "k < nb" by simp
  let ?n = "1 + p + q"
  have lb: "length (block mu ar ma k) = ?n" using assms k by (simp add: block_def)
  have "k * ?n + ?n \<le> ?n * nb" using k
    by (metis Suc_leI mult.commute mult_Suc mult_le_mono1 add.commute)
  then have ls: "length (slice x (k * ?n) ((k + 1) * ?n)) = ?n"
    using Suc.prems(1) by (simp add: slice_def)
  define x' where "x' = take (k * ?n) x @ block mu ar ma k @ drop (k * ?n + ?n) x"
  have as: "assign_slice x (k * ?n) ((k + 1) * ?n) (block mu ar ma k) = Inr x'"
    unfolding assign_slice_def Let_def ls using lb by (simp add: x'_def)
  have lx': "length x' = ?n * nb" using Suc.prems(1) \<open>k * ?n + ?n \<le> ?n * nb\<close> lb
    by (simp add: x'_def)
  have tk: "take (Suc k * ?n) x' = take (k * ?n) x @ block mu ar ma k"
    using lb Suc.prems(1) \<open>k * ?n + ?n \<le> ?n * nb\<close> by (simp add: x'_def)
  have ih: "pack_loop p q mu ar ma [Suc k..<nb] x' =
       Inr (take (Suc k * ?n) x' @ concat (map (block mu ar ma) [Suc k..<nb]))"
    using Suc.hyps(1)[of "Suc k" x'] Suc.hyps(2) lx' k by simp
  have im: "item mu k = Inr (mu ! k)" "item ar k = Inr (ar ! k)" "item ma k = Inr (ma ! k)"
    using k assms(1-3) by (simp_all add: item_def)
  have "pack_loop p q mu ar ma (k # [Suc k..<nb]) x = pack_loop p q mu ar ma [Suc k..<nb] x'"
    using as unfolding block_def by (simp only: pack_loop.simps Let_def im sum.case)
  then have "pack_loop p q mu ar ma [k..<nb] x = pack_loop p q mu ar ma [Suc k..<nb] x'"
    using k by (simp only: upt_conv_Cons)
  moreover have "concat (map (block mu ar ma) [k..<nb]) =
      block mu ar ma k @ concat (map (block mu ar ma) [Suc k..<nb])"
    using k by (simp add: upt_conv_Cons)
  ultimately show ?case using ih tk by simp
qed

lemma unpack_loop_blocks:
  assumes "length mu = nb" "length ar = nb" "length ma = nb"
    and "\<forall>i<nb. length (ar ! i) = p \<and> length (ma ! i) = q"
    and "x = concat (map (block mu ar ma) [0..<nb])"
  shows "k \<le> nb \<Longrightarrow>
     unpack_loop p q x [k..<nb] (take k mu @ replicate (nb - k) 0, take k ar, take k ma) =
       Inr (mu, ar, ma)"
proof (induction "nb - k" arbitrary: k)
  case 0
  then show ?case using assms by simp
next
  case (Suc d)
  then have k: "k < nb" by simp
  let ?n = "1 + p + q"
  have "\<forall>b\<in>set (map (block mu ar ma) [0..<nb]). length b = ?n"
    using assms by (auto simp: block_def)
  then have sl: "slice x (k * ?n) ((k + 1) * ?n) = block mu ar ma k"
    using slice_concat_blocks[of "map (block mu ar ma) [0..<nb]" ?n k] k assms(5) by simp
  have nk: "nb - k = Suc (nb - Suc k)" using k by simp
  have m: "(take k mu @ replicate (nb - k) 0)[k := mu ! k] = take (Suc k) mu @ replicate (nb - Suc k) 0"
    unfolding nk using k assms(1) by (simp add: list_update_append take_Suc_conv_app_nth)
  have it: "item (block mu ar ma k) 0 = Inr (mu ! k)" by (simp add: item_def block_def)
  have s1: "slice (block mu ar ma k) 1 (p + 1) = ar ! k"
    using assms(2,4) k by (simp add: slice_def block_def)
  have s2: "drop (p + 1) (block mu ar ma k) = ma ! k"
    using assms(2,4) k by (simp add: block_def)
  have t: "take k ar @ [ar ! k] = take (Suc k) ar" "take k ma @ [ma ! k] = take (Suc k) ma"
    using k assms(2,3) by (simp_all add: take_Suc_conv_app_nth)
  have "unpack_loop p q x (k # [Suc k..<nb]) (take k mu @ replicate (nb - k) 0, take k ar, take k ma)
      = unpack_loop p q x [Suc k..<nb] (take (Suc k) mu @ replicate (nb - Suc k) 0, take (Suc k) ar, take (Suc k) ma)"
    by (simp only: unpack_loop.simps Let_def sl it sum.case s1 s2 m t)
  then have "unpack_loop p q x [k..<nb] (take k mu @ replicate (nb - k) 0, take k ar, take k ma)
      = unpack_loop p q x [Suc k..<nb] (take (Suc k) mu @ replicate (nb - Suc k) 0, take (Suc k) ar, take (Suc k) ma)"
    using k by (simp only: upt_conv_Cons)
  then show ?case using Suc.hyps(1)[of "Suc k"] Suc.hyps(2) k by simp
qed

lemma unpack_loop_error:
  "unpack_loop p q x js st = Inl e \<Longrightarrow> e = IndexError"
proof (induction js arbitrary: st)
  case Nil then show ?case by simp
next
  case (Cons i js)
  obtain mu ar ma where st: "st = (mu, ar, ma)" by (cases st)
  show ?case using Cons unfolding st
    by (auto simp: Let_def item_def split: sum.splits if_splits)
qed

lemma item_block_start:
  "item (slice x (i * (1 + p + q)) ((i + 1) * (1 + p + q))) 0 =
     (if i * (1 + p + q) < length x then Inr (x ! (i * (1 + p + q))) else Inl IndexError)"
  by (simp add: item_def slice_def hd_drop_conv_nth)

lemma unpack_loop_fails_iff:
  "(\<exists>e. unpack_loop p q x js st = Inl e) \<longleftrightarrow> (\<exists>i\<in>set js. length x \<le> i * (1 + p + q))"
proof (induction js arbitrary: st)
  case Nil then show ?case by simp
next
  case (Cons i js)
  obtain mu ar ma where st: "st = (mu, ar, ma)" by (cases st)
  show ?case
  proof (cases "i * (1 + p + q) < length x")
    case True
    then show ?thesis unfolding st using Cons[of "(mu[i := x ! (i * (1 + p + q))], ar @ [slice (slice x (i * (1 + p + q)) ((i + 1) * (1 + p + q))) 1 (p + 1)], ma @ [drop (p + 1) (slice x (i * (1 + p + q)) ((i + 1) * (1 + p + q)))])"]
      by (simp only: unpack_loop.simps Let_def item_block_start if_True sum.case) auto
  next
    case False
    then show ?thesis unfolding st
      by (simp only: unpack_loop.simps Let_def item_block_start if_False sum.case) auto
  qed
qed

lemma assign_slice_length: "assign_slice x a b v = Inr x' \<Longrightarrow> length x' = length x"
  by (auto simp: assign_slice_def Let_def slice_def min_def split: if_splits)

lemma pack_loop_length: "pack_loop p q mu ar ma js x = Inr x' \<Longrightarrow> length x' = length x"
proof (induction js arbitrary: x)
  case Nil then show ?case by simp
next
  case (Cons i js)
  then show ?case
    by (auto simp: Let_def split: sum.splits dest!: assign_slice_length)
qed


text \<open>
  Claim C1. For every \<open>p\<close>, \<open>q\<close>, batch size \<open>nb\<close>, means \<open>mu\<close> of length \<open>nb\<close>,
  \<open>nb\<close> AR vectors of length \<open>p\<close> and \<open>nb\<close> MA vectors of length \<open>q\<close>, \<open>pack\<close> returns a
  flat vector of length \<open>nb * (1 + p + q)\<close> and \<open>unpack\<close> of that vector returns exactly
  \<open>(mu, ar, ma)\<close>: the round trip is the identity. (It holds for \<open>nb = 0\<close> as well.)
\<close>

theorem unpack_pack_identity:
  assumes "length mu = nb" "length ar = nb" "length ma = nb"
    and "\<forall>i<nb. length (ar ! i) = p \<and> length (ma ! i) = q"
  shows "\<exists>x. pack p q nb mu ar ma = Inr x \<and> length x = nb * (1 + p + q) \<and> unpack p q nb x = Inr (mu, ar, ma)"
proof -
  let ?x = "concat (map (block mu ar ma) [0..<nb])"
  have "pack p q nb mu ar ma = Inr ?x"
    unfolding pack_def using pack_loop_blocks[OF assms, of "replicate ((1 + p + q) * nb) 0" 0] by simp
  moreover have "unpack p q nb ?x = Inr (mu, ar, ma)"
    unfolding unpack_def using unpack_loop_blocks[OF assms refl, of 0] by simp
  moreover have "length ?x = nb * (1 + p + q)"
    using assms length_concat_blocks[of "map (block mu ar ma) [0..<nb]" "1 + p + q"]
    by (simp add: block_def)
  ultimately show ?thesis by blast
qed

theorem unpack_pack_identity_witness:
  "length [1, 2::int] = 2 \<and> length [[3], [4::int]] = 2 \<and> length [[5], [6::int]] = 2 \<and>
   pack 1 1 2 [1, 2::int] [[3], [4]] [[5], [6]] = Inr [1, 3, 5, 2, 4, 6] \<and>
   unpack 1 1 2 [1, 3, 5, 2, 4, 6::int] = Inr ([1, 2], [[3], [4]], [[5], [6]])"
proof -
  have h: "\<forall>i<2. length ([[3], [4::int]] ! i) = 1 \<and> length ([[5], [6::int]] ! i) = 1"
    by (simp add: less_Suc_eq numeral_2_eq_2)
  have p: "pack 1 1 2 [1, 2::int] [[3], [4]] [[5], [6]] = Inr [1, 3, 5, 2, 4, 6]"
    by code_simp
  from unpack_pack_identity[of "[1, 2::int]" 2 "[[3], [4]]" "[[5], [6]]" 1 1, OF _ _ _ h]
  show ?thesis using h p by simp
qed


text \<open>
  Claim C8 as stated (both functions raise an index error whenever the flat vector has a
  length other than \<open>nb * (1 + p + q)\<close>) does not hold of \<open>unpack\<close>: Python slices are cut
  at the end of the array and never raise, so a vector that is too long, or whose last
  block is only shortened, is unpacked without an error.
\<close>

theorem unpack_wrong_length_counterexample:
  "length [1, 2, 3::int] \<noteq> 1 * (1 + 1 + 0) \<and>
   unpack 1 0 1 [1, 2, 3::int] = Inr ([1], [[2]], [[]])"
  by code_simp

text \<open>
  Claim C8, amended. \<open>unpack\<close> raises IndexError exactly when the block of some batch
  member is empty, that is when \<open>nb > 0\<close> and \<open>len(x) \<le> (nb - 1) * (1 + p + q)\<close>; for every
  other length it returns. \<open>pack\<close> takes no flat vector: it allocates one, and whenever it
  returns, the vector has length \<open>nb * (1 + p + q)\<close>.
\<close>

theorem codec_length_behaviour:
  "(unpack p q nb x = Inl IndexError \<longleftrightarrow> 0 < nb \<and> length x \<le> (nb - 1) * (1 + p + q)) \<and>
   ((\<exists>r. unpack p q nb x = Inr r) \<longleftrightarrow> \<not> (0 < nb \<and> length x \<le> (nb - 1) * (1 + p + q))) \<and>
   (pack p q nb mu ar ma = Inr x' \<longrightarrow> length x' = nb * (1 + p + q))"
proof -
  have a: "(\<exists>i\<in>set [0..<nb]. length x \<le> i * (1 + p + q)) \<longleftrightarrow> 0 < nb \<and> length x \<le> (nb - 1) * (1 + p + q)"
  proof
    assume "\<exists>i\<in>set [0..<nb]. length x \<le> i * (1 + p + q)"
    then obtain i where i: "i < nb" "length x \<le> i * (1 + p + q)" by auto
    then have "i * (1 + p + q) \<le> (nb - 1) * (1 + p + q)" by (intro mult_le_mono1) simp
    with i show "0 < nb \<and> length x \<le> (nb - 1) * (1 + p + q)" by simp
  next
    assume "0 < nb \<and> length x \<le> (nb - 1) * (1 + p + q)"
    then have "nb - 1 \<in> set [0..<nb]" and "length x \<le> (nb - 1) * (1 + p + q)"
      by (simp, blast)
    then show "\<exists>i\<in>set [0..<nb]. length x \<le> i * (1 + p + q)" by blast
  qed
  have b: "(\<exists>e. unpack p q nb x = Inl e) \<longleftrightarrow> unpack p q nb x = Inl IndexError"
    unfolding unpack_def using unpack_loop_error by blast
  have c: "(\<exists>r. unpack p q nb x = Inr r) \<longleftrightarrow> \<not> (\<exists>e. unpack p q nb x = Inl e)"
    by (cases "unpack p q nb x") auto
  have d: "pack p q nb mu ar ma = Inr x' \<longrightarrow> length x' = nb * (1 + p + q)"
    unfolding pack_def by (auto dest!: pack_loop_length simp: mult.commute)
  have e: "(\<exists>e. unpack p q nb x = Inl e) \<longleftrightarrow> 0 < nb \<and> length x \<le> (nb - 1) * (1 + p + q)"
    using a unpack_loop_fails_iff[of p q x "[0..<nb]" "(replicate nb 0, [], [])"]
    unfolding unpack_def by blast
  show ?thesis using b c d e by blast
qed


theorem codec_length_behaviour_witness:
  "unpack 1 0 2 [1, 2::int] = Inl IndexError \<and>
   (\<exists>r. unpack 1 0 2 [1, 2, 3::int] = Inr r) \<and>
   pack 1 0 2 [1, 2::int] [[3], [4]] [[], []] = Inr [1, 3, 2, 4] \<and>
   length [1, 3, 2, 4::int] = 2 * (1 + 1 + 0)"
proof -
  have p: "pack 1 0 2 [1, 2::int] [[3], [4]] [[], []] = Inr [1, 3, 2, 4]"
    by code_simp
  show ?thesis
    using codec_length_behaviour[of 1 0 2 "[1, 2::int]" "[1, 2]" "[[3], [4]]" "[[], []]" "[1, 3, 2, 4]"]
      codec_length_behaviour[of 1 0 2 "[1, 2, 3::int]" "[1, 2]" "[[3], [4]]" "[[], []]" "[1, 3, 2, 4]"] p
    by simp
qed

section \<open>Properties of the differencing utility\<close>












section \<open>Properties of the recursive forecast generator\<close>

lemma fl_add_zero_right: "fl_add a (Fin 0) = a"
  by (cases a) simp_all

lemma length_forecast_spec: "length (forecast_spec p q mu ar ma y_diff vs k) = k"
  by (induction k) (simp_all add: Let_def)

lemma list_update_zeros_tail:
  "length F = k \<Longrightarrow> k < n \<Longrightarrow>
   (pre @ F @ replicate (n - k) z)[length pre + k := v] = pre @ (F @ [v]) @ replicate (n - Suc k) z"
proof -
  assume a: "length F = k" "k < n"
  then have "n - k = Suc (n - Suc k)" by simp
  then show ?thesis using a by (simp add: list_update_append)
qed

lemma fc_single_loop_step:
  assumes lar: "length ar = p" and lma: "length ma = q"
    and lh: "length hp = p" and lv: "length vq = q"
    and hp: "hp = tail_slice y_diff p" and vq: "vq = tail_slice vs q"
    and k: "k < n"
  shows "fc_single_loop p q mu ma ar (vq @ replicate n (Fin 0)) (k # js)
           (fc_state p hp (forecast_spec p q mu ar ma y_diff vs k) n k)
       = fc_single_loop p q mu ma ar (vq @ replicate n (Fin 0)) js
           (fc_state p hp (forecast_spec p q mu ar ma y_diff vs (Suc k)) n (Suc k))"
proof -
  define F where "F = forecast_spec p q mu ar ma y_diff vs"
  define Y where "Y = (\<lambda>k. if p > 0 then hp @ F k @ replicate (n - k) (Fin 0) else replicate (p + n) (Fin 0))"
  have st: "\<And>k. fc_state p hp (forecast_spec p q mu ar ma y_diff vs k) n k = (Y k, F k @ replicate (n - k) (Fin 0))"
    by (simp add: fc_state_def Y_def F_def)
  let ?mu_star = "fl_mul mu (fl_sub (Fin 1) (fl_sum ar))"
  have lF: "length (F k) = k" by (simp add: F_def length_forecast_spec)
  let ?f1 = "fl_add ?mu_star (fl_dot ar (ar_window p y_diff (F k) k))"
  let ?f2 = "forecast_at p q mu ar ma y_diff vs (F k) k"
  have FS: "F (Suc k) = F k @ [?f2]" by (simp add: F_def Let_def)
  have s1: "(if p > 0
               then (case np_dot ar (slice (Y k) k (k + p)) of
                       Inl e \<Rightarrow> Inl e | Inr t \<Rightarrow> Inr (fl_add ?mu_star t))
               else Inr ?mu_star) = Inr ?f1"
  proof (cases "p > 0")
    case True
    have "slice (Y k) k (k + p) = ar_window p y_diff (F k) k"
      using True lh lF by (simp add: Y_def slice_def ar_window_def hp[symmetric])
    moreover have "length (ar_window p y_diff (F k) k) = p"
      using lh lF by (simp add: slice_def ar_window_def hp[symmetric])
    ultimately show ?thesis using True lar by (simp add: np_dot_def fl_dot_def)
  next
    case False
    then have "ar = []" using lar by simp
    then show ?thesis using False by (simp add: fl_dot_def fl_sum_def fl_add_zero_right)
  qed
  have s2: "(if q > 0 \<and> k < q
                   then (case np_dot ma (slice (vq @ replicate n (Fin 0)) k (k + q)) of
                           Inl e \<Rightarrow> Inl e | Inr t \<Rightarrow> Inr (fl_add ?f1 t))
                   else Inr ?f1) = Inr ?f2"
  proof (cases "k < q")
    case True
    have "slice (vq @ replicate n (Fin 0)) k (k + q) = ma_window q vs k"
      using True lv k by (simp add: slice_def ma_window_def vq[symmetric] min_def)
    moreover have "length (ma_window q vs k) = q"
      using True lv by (simp add: ma_window_def vq[symmetric])
    ultimately show ?thesis using True lma
      by (simp add: np_dot_def fl_dot_def forecast_at_def)
  next
    case False
    then show ?thesis by (simp add: forecast_at_def fl_add_zero_right)
  qed
  have u1: "(if p > 0 then (Y k)[k + p := ?f2] else Y k) = Y (Suc k)"
  proof (cases "p > 0")
    case True
    have "(hp @ F k @ replicate (n - k) (Fin 0))[length hp + k := ?f2]
        = hp @ (F k @ [?f2]) @ replicate (n - Suc k) (Fin 0)"
      using list_update_zeros_tail[OF lF k] .
    then show ?thesis using True lh by (simp add: Y_def FS add.commute)
  next
    case False
    then show ?thesis by (simp add: Y_def)
  qed
  have u2: "(F k @ replicate (n - k) (Fin 0))[k := ?f2] = F (Suc k) @ replicate (n - Suc k) (Fin 0)"
    using list_update_zeros_tail[OF lF k, of "[]" "Fin 0" ?f2] by (simp add: FS)
  show ?thesis unfolding st
    by (simp only: fc_single_loop.simps Let_def s1 s2 u1 u2 sum.case)
qed

lemma fc_single_loop_spec:
  assumes lar: "length ar = p" and lma: "length ma = q"
    and lh: "length hp = p" and lv: "length vq = q"
    and hp: "hp = tail_slice y_diff p" and vq: "vq = tail_slice vs q"
  shows "k \<le> n \<Longrightarrow>
     fc_single_loop p q mu ma ar (vq @ replicate n (Fin 0)) [k..<n]
        (fc_state p hp (forecast_spec p q mu ar ma y_diff vs k) n k)
       = Inr (fc_state p hp (forecast_spec p q mu ar ma y_diff vs n) n n)"
proof (induction "n - k" arbitrary: k)
  case 0
  then show ?case by simp
next
  case (Suc d)
  then have k: "k < n" by simp
  have "[k..<n] = k # [Suc k..<n]" using k by (simp add: upt_conv_Cons)
  moreover have "fc_single_loop p q mu ma ar (vq @ replicate n (Fin 0)) [Suc k..<n]
        (fc_state p hp (forecast_spec p q mu ar ma y_diff vs (Suc k)) n (Suc k))
       = Inr (fc_state p hp (forecast_spec p q mu ar ma y_diff vs n) n n)"
    using Suc.hyps(1)[of "Suc k"] Suc.hyps(2) k by simp
  ultimately show ?case
    using fc_single_loop_step[OF lar lma lh lv hp vq k, of mu "[Suc k..<n]"] by simp
qed

lemma fc_single_forecast_spec:
  assumes "length ar = p" "length ma = q" "p \<le> length y_diff" "q \<le> length vs"
  shows "fc_single n (Order p d q) y_diff vs mu ma ar = Inr (forecast_spec p q mu ar ma y_diff vs n)"
proof -
  let ?hp = "tail_slice y_diff p" and ?vq = "tail_slice vs q"
  have lh: "length ?hp = p" and lv: "length ?vq = q" using assms by (simp_all add: tail_slice_def)
  have y0: "(if p > 0
                then assign_slice (replicate (p + n) (Fin 0)) 0 p ?hp
                else Inr (replicate (p + n) (Fin 0)))
      = Inr (if p > 0 then ?hp @ [] @ replicate (n - 0) (Fin 0) else replicate (p + n) (Fin 0))"
    using lh by (simp add: assign_slice_def slice_def Let_def)
  have v0: "(if q > 0
                then assign_slice (replicate (q + n) (Fin 0)) 0 q ?vq
                else Inr (replicate (q + n) (Fin 0)))
      = Inr (?vq @ replicate n (Fin 0))"
  proof (cases "q > 0")
    case True
    then show ?thesis using lv by (simp add: assign_slice_def slice_def Let_def)
  next
    case False
    then show ?thesis by (simp add: tail_slice_def)
  qed
  have lp: "fc_single_loop p q mu ma ar (?vq @ replicate n (Fin 0)) [0..<n]
       (if p > 0 then ?hp @ [] @ replicate (n - 0) (Fin 0) else replicate (p + n) (Fin 0), replicate n (Fin 0))
      = Inr (fc_state p ?hp (forecast_spec p q mu ar ma y_diff vs n) n n)"
    using fc_single_loop_spec[OF assms(1,2) lh lv refl refl, of 0 n mu] by (simp add: fc_state_def)
  have sn: "snd (fc_state p ?hp (forecast_spec p q mu ar ma y_diff vs n) n n) = forecast_spec p q mu ar ma y_diff vs n"
    by (simp add: fc_state_def)
  show ?thesis
    unfolding fc_single_def using sn
    by (simp only: unpack_order.simps sum.case prod.case y0 v0 lp split: prod.splits) auto
qed

section \<open>Properties of the likelihood evaluator\<close>

lemma bnd_lift_Inr [simp]: "bnd (lift (Inr v)) f = f v"
  by (rule ext) (simp add: bnd_def lift_def)

lemma bnd_lift_Inl [simp]: "bnd (lift (Inl e)) f w = Inl e"
  by (simp add: bnd_def lift_def)

lemma bnd_ret [simp]: "bnd (ret v) f = f v"
  by (rule ext) (simp add: bnd_def ret_def)

lemma lift_Inl [simp]: "lift (Inl e) w = Inl e"
  by (simp add: lift_def)

lemma ebind_Inr [simp]: "ebind (Inr v) f = f v"
  by (simp add: ebind_def)

lemma ebind_Inl [simp]: "ebind (Inl e) f = Inl e"
  by (simp add: ebind_def)

lemma bnd_fails: "m w = Inl e \<Longrightarrow> bnd m f w = Inl e"
  by (simp add: bnd_def)

lemma mapE_order_d:
  "mapE (\<lambda>order. ebind (unpack_order order) (\<lambda>(_, d, _). Inr d))
        (map (\<lambda>(p, d, q). Order p d q) os) = Inr (map (\<lambda>t. fst (snd t)) os)"
  by (induction os) (auto split: prod.splits)

lemma assert_same_d_tuples:
  "os \<noteq> [] \<Longrightarrow>
   assert_same_d (map (\<lambda>(p, d, q). Order p d q) os) =
     (if \<forall>t\<in>set os. fst (snd t) = fst (snd (hd os)) then Inr () else Inl AssertionError)"
  by (cases os) (force simp: assert_same_d_def mapE_order_d item_def list_all_iff)+

lemma first_order_tuple:
  "os \<noteq> [] \<Longrightarrow>
   ebind (item (map (\<lambda>(p, d, q). Order p d q) os) 0) unpack_order = Inr (hd os)"
  by (cases os) (auto simp: item_def split: prod.splits)

lemma run_kalman_tuples:
  assumes "model_order m = map (\<lambda>(p, d, q). Order p d q) os" "os \<noteq> []"
  shows "run_kalman E m gpu ip =
     bnd (call_ext Call_init_batched_kalman_matrices
            (\<lambda>mo. init_batched_kalman_matrices E mo (model_ar_params m) (model_ma_params m)))
       (\<lambda>K.
         if \<not> (\<forall>t\<in>set os. fst (snd t) = fst (snd (hd os))) then lift (Inl AssertionError)
         else if fst (snd (hd os)) = 0 then
           call_ext Call_batched_kfilter (\<lambda>mo. batched_kfilter E mo (model_y m) K gpu ip)
         else if fst (snd (hd os)) = 1 then
           bnd (lift (diffAndCenter (model_y m) (model_num_batches m) (model_mu m) (model_ar_params m)))
             (\<lambda>ydc. call_ext Call_batched_kfilter (\<lambda>mo. batched_kfilter E mo ydc K gpu ip))
         else lift (Inl NotImplementedError))"
proof -
  obtain p d q where h: "hd os = (p, d, q)" by (cases "hd os")
  show ?thesis
    unfolding run_kalman_def assms(1) assert_same_d_tuples[OF assms(2)] first_order_tuple[OF assms(2)] h
    by (auto intro!: arg_cong[where f="bnd _"] simp: fun_eq_iff bnd_def lift_def split: sum.splits)
qed

lemma call_ext_fails:
  "f (errmode w) = Inl e \<Longrightarrow> call_ext c f w = Inl e"
  by (simp add: call_ext_def)

lemma call_ext_returns:
  "f (errmode w) = Inr v \<Longrightarrow> call_ext c f w = Inr (v, w\<lparr>calls := calls w @ [(c, errmode w)]\<rparr>)"
  by (simp add: call_ext_def)

lemma bnd_call_ext_Inr:
  "f (errmode w) = Inr v \<Longrightarrow> bnd (call_ext c f) g w = g v (w\<lparr>calls := calls w @ [(c, errmode w)]\<rparr>)"
  by (simp add: bnd_def call_ext_def)

lemma bnd_always_fails: "(\<And>v w'. f v w' = Inl (e v w')) \<Longrightarrow> \<exists>e'. bnd m f w = Inl e'"
  by (auto simp: bnd_def split: sum.splits)

lemma loglike_fails: "run_kalman E m gpu False w = Inl e \<Longrightarrow> loglike E m gpu w = Inl e"
  by (simp add: loglike_def bnd_def)

lemma predict_in_sample_fails:
  "run_kalman E m gpu False w = Inl e \<Longrightarrow> predict_in_sample E m gpu w = Inl e"
  by (simp add: predict_in_sample_def predict_values_def bnd_def)

lemma forecast_fails:
  "run_kalman E m True False w = Inl e \<Longrightarrow> forecast E m n w = Inl e"
  by (simp add: forecast_def bnd_def Let_def)


text \<open>
  Claim C5. Take a model whose order list is a non-empty list of tuples \<open>(p, d, q)\<close>.
  If its members do not all share the \<open>d\<close> of the first one, \<open>run_kalman\<close> fails, with
  AssertionError as soon as the state-space matrices have been built. If they share a \<open>d\<close>
  other than 0 and 1, it fails, with NotImplementedError. If they share \<open>d = 0\<close> or
  \<open>d = 1\<close>, neither check raises: \<open>run_kalman\<close> is the kernel applied to the series (for
  \<open>d = 1\<close>, differenced and centred). Every failure of \<open>run_kalman\<close> is a failure of
  \<open>loglike\<close>, \<open>predict_in_sample\<close> and \<open>forecast\<close>.
\<close>

theorem run_kalman_rejects_unsupported_d:
  assumes "model_order m = map (\<lambda>(p, d, q). Order p d q) os" and "os \<noteq> []"
  shows "((\<exists>t\<in>set os. fst (snd t) \<noteq> fst (snd (hd os))) \<longrightarrow>
           (\<exists>e. run_kalman E m gpu ip w = Inl e) \<and>
           ((\<exists>K. init_batched_kalman_matrices E (errmode w) (model_ar_params m) (model_ma_params m) = Inr K)
              \<longrightarrow> run_kalman E m gpu ip w = Inl AssertionError)) \<and>
         ((\<forall>t\<in>set os. fst (snd t) = d) \<and> d \<noteq> 0 \<and> d \<noteq> 1 \<longrightarrow>
           (\<exists>e. run_kalman E m gpu ip w = Inl e) \<and>
           ((\<exists>K. init_batched_kalman_matrices E (errmode w) (model_ar_params m) (model_ma_params m) = Inr K)
              \<longrightarrow> run_kalman E m gpu ip w = Inl NotImplementedError)) \<and>
         ((\<forall>t\<in>set os. fst (snd t) = d) \<and> (d = 0 \<or> d = 1) \<longrightarrow>
           run_kalman E m gpu ip =
             bnd (call_ext Call_init_batched_kalman_matrices
                    (\<lambda>mo. init_batched_kalman_matrices E mo (model_ar_params m) (model_ma_params m)))
               (\<lambda>K. bnd (if d = 0 then ret (model_y m)
                          else lift (diffAndCenter (model_y m) (model_num_batches m)
                                       (model_mu m) (model_ar_params m)))
                       (\<lambda>ys. call_ext Call_batched_kfilter
                               (\<lambda>mo. batched_kfilter E mo ys K gpu ip)))) \<and>
         (\<forall>e. run_kalman E m gpu False w = Inl e \<longrightarrow>
            loglike E m gpu w = Inl e \<and> predict_in_sample E m gpu w = Inl e) \<and>
         (\<forall>e. run_kalman E m True False w = Inl e \<longrightarrow> forecast E m n w = Inl e)"
proof -
  note rk = run_kalman_tuples[OF assms, of E gpu ip]
  have hd_in: "hd os \<in> set os" using assms(2) by simp
  have a: "(\<exists>e. run_kalman E m gpu ip w = Inl e) \<and>
           ((\<exists>K. init_batched_kalman_matrices E (errmode w) (model_ar_params m) (model_ma_params m) = Inr K)
              \<longrightarrow> run_kalman E m gpu ip w = Inl AssertionError)"
    if "\<exists>t\<in>set os. fst (snd t) \<noteq> fst (snd (hd os))"
    using that unfolding rk
    by (auto simp: bnd_def call_ext_def lift_def split: sum.splits)
  have b: "(\<exists>e. run_kalman E m gpu ip w = Inl e) \<and>
           ((\<exists>K. init_batched_kalman_matrices E (errmode w) (model_ar_params m) (model_ma_params m) = Inr K)
              \<longrightarrow> run_kalman E m gpu ip w = Inl NotImplementedError)"
    if "\<forall>t\<in>set os. fst (snd t) = d" "d \<noteq> 0" "d \<noteq> 1"
  proof -
    have "fst (snd (hd os)) = d" using that(1) hd_in by blast
    then show ?thesis using that unfolding rk
      by (auto simp: bnd_def call_ext_def lift_def split: sum.splits)
  qed
  have c: "run_kalman E m gpu ip =
             bnd (call_ext Call_init_batched_kalman_matrices
                    (\<lambda>mo. init_batched_kalman_matrices E mo (model_ar_params m) (model_ma_params m)))
               (\<lambda>K. bnd (if d = 0 then ret (model_y m)
                          else lift (diffAndCenter (model_y m) (model_num_batches m)
                                       (model_mu m) (model_ar_params m)))
                       (\<lambda>ys. call_ext Call_batched_kfilter
                               (\<lambda>mo. batched_kfilter E mo ys K gpu ip)))"
    if "\<forall>t\<in>set os. fst (snd t) = d" "d = 0 \<or> d = 1"
  proof -
    have "fst (snd (hd os)) = d" using that(1) hd_in by blast
    then show ?thesis using that unfolding rk by auto
  qed
  show ?thesis using a b c loglike_fails predict_in_sample_fails forecast_fails by blast
qed

theorem run_kalman_rejects_unsupported_d_witness:
  "run_kalman (demo_externals [] (Fin 0))
      (ARIMAModel [Order 1 0 0, Order 1 1 0] [Fin 0, Fin 0] [[Fin 0], [Fin 0]] [[], []]
         (Array2 2 2 [[Fin 1, Fin 2], [Fin 3, Fin 4]])) True False world0 = Inl AssertionError \<and>
   run_kalman (demo_externals [] (Fin 0))
      (ARIMAModel [Order 1 2 0] [Fin 0] [[Fin 0]] [[]]
         (Array2 2 1 [[Fin 1], [Fin 3]])) True False world0 = Inl NotImplementedError \<and>
   run_kalman (demo_externals [] (Fin 0))
      (ARIMAModel [Order 1 1 0] [Fin 0] [[Fin 0]] [[]]
         (Array2 2 1 [[Fin 1], [Fin 3]])) True False world0 =
     Inr (([Fin 0], Array2 1 1 [[Fin 0]]),
          world0\<lparr>calls := [(Call_init_batched_kalman_matrices, ErrWarn), (Call_batched_kfilter, ErrWarn)]\<rparr>)"
proof -
  let ?E = "demo_externals [] (Fin 0)"
  let ?m1 = "ARIMAModel [Order 1 0 0, Order 1 1 0] [Fin 0, Fin 0] [[Fin 0], [Fin 0]] [[], []]
         (Array2 2 2 [[Fin 1, Fin 2], [Fin 3, Fin 4]])"
  let ?m2 = "ARIMAModel [Order 1 2 0] [Fin 0] [[Fin 0]] [[]] (Array2 2 1 [[Fin 1], [Fin 3]])"
  let ?m3 = "ARIMAModel [Order 1 1 0] [Fin 0] [[Fin 0]] [[]] (Array2 2 1 [[Fin 1], [Fin 3]])"
  have i: "\<And>mo a b. init_batched_kalman_matrices ?E mo a b = Inr (map fl_sum a)"
    by (simp add: demo_externals_def)
  have h1: "model_order ?m1 = map (\<lambda>(p, d, q). Order p d q) [(1, 0, 0), (1, 1, 0)]"
    by (simp add: ARIMAModel_def)
  have h2: "model_order ?m2 = map (\<lambda>(p, d, q). Order p d q) [(1, 2, 0)]"
    by (simp add: ARIMAModel_def)
  have h3: "model_order ?m3 = map (\<lambda>(p, d, q). Order p d q) [(1, 1, 0)]"
    by (simp add: ARIMAModel_def)
  have a: "run_kalman ?E ?m1 True False world0 = Inl AssertionError"
    using run_kalman_rejects_unsupported_d[OF h1, where E="?E" and gpu=True and ip=False and w=world0 and d=0 and n=0] i by simp
  have b: "run_kalman ?E ?m2 True False world0 = Inl NotImplementedError"
    using run_kalman_rejects_unsupported_d[OF h2, where E="?E" and gpu=True and ip=False and w=world0 and d=2 and n=0] i by simp
  have dc: "diffAndCenter (Array2 2 (Suc 0) [[Fin 1], [Fin 3]]) (Suc 0) [Fin 0] [[Fin 0]] = Inr (Array2 1 1 [[Fin 2]])"
    by (simp add: diffAndCenter_def np_diff0_def broadcast2_def bshape_def as_row_def bget2_def fl_sub_def)
  have "run_kalman ?E ?m3 True False =
      bnd (call_ext Call_init_batched_kalman_matrices
                    (\<lambda>mo. init_batched_kalman_matrices ?E mo (model_ar_params ?m3) (model_ma_params ?m3)))
               (\<lambda>K. bnd (if (1::int) = 0 then ret (model_y ?m3)
                          else lift (diffAndCenter (model_y ?m3) (model_num_batches ?m3)
                                       (model_mu ?m3) (model_ar_params ?m3)))
                       (\<lambda>ys. call_ext Call_batched_kfilter
                               (\<lambda>mo. batched_kfilter ?E mo ys K True False)))"
    using run_kalman_rejects_unsupported_d[OF h3, where E="?E" and gpu=True and ip=False and w=world0 and d=1 and n=0] by simp
  then have c: "run_kalman ?E ?m3 True False world0 =
     Inr (([Fin 0], Array2 1 1 [[Fin 0]]),
          world0\<lparr>calls := [(Call_init_batched_kalman_matrices, ErrWarn), (Call_batched_kfilter, ErrWarn)]\<rparr>)"
    by (simp add: bnd_def call_ext_def lift_def i ARIMAModel_def dc demo_externals_def world0_def
          fl_sum_def)
  show ?thesis using a b c by simp
qed


section \<open>Properties of the forecaster\<close>

lemma forecast_spec_take:
  "i \<le> n \<Longrightarrow> take i (forecast_spec p q mu ar ma y_diff vs n) = forecast_spec p q mu ar ma y_diff vs i"
proof (induction n)
  case 0 then show ?case by simp
next
  case (Suc n)
  show ?case
  proof (cases "i = Suc n")
    case True
    then show ?thesis using length_forecast_spec[of p q mu ar ma y_diff vs "Suc n"] by simp
  next
    case False
    with Suc.prems have "i \<le> n" by simp
    then show ?thesis using Suc.IH length_forecast_spec[of p q mu ar ma y_diff vs n]
      by (simp add: Let_def)
  qed
qed

lemma forecast_spec_nth:
  assumes "i < n"
  shows "forecast_spec p q mu ar ma y_diff vs n ! i =
     forecast_at p q mu ar ma y_diff vs (take i (forecast_spec p q mu ar ma y_diff vs n)) i"
proof -
  have "forecast_spec p q mu ar ma y_diff vs n ! i = take (Suc i) (forecast_spec p q mu ar ma y_diff vs n) ! i"
    by simp
  also have "\<dots> = forecast_spec p q mu ar ma y_diff vs (Suc i) ! i"
    using assms by (simp only: forecast_spec_take[of "Suc i" n] Suc_leI)
  also have "\<dots> = forecast_at p q mu ar ma y_diff vs (forecast_spec p q mu ar ma y_diff vs i) i"
    using length_forecast_spec[of p q mu ar ma y_diff vs i] by (simp add: Let_def nth_append)
  finally show ?thesis using assms by (simp add: forecast_spec_take)
qed

lemma fl_mul_one_right: "fl_mul a (Fin 1) = a"
  by (cases a) (simp_all add: inf_of_sign_def)

lemma forecast_spec_constant:
  "forecast_spec 0 0 mu [] [] y_diff vs n = replicate n mu"
proof (induction n)
  case 0 then show ?case by simp
next
  case (Suc n)
  have "forecast_at 0 0 mu [] [] y_diff vs (replicate n mu) n = mu"
    by (simp add: forecast_at_def fl_sum_def fl_dot_def fl_sub_def fl_mul_one_right fl_add_zero_right)
  then show ?case using Suc by (simp add: Let_def replicate_append_same)
qed

lemma fc_single_constant:
  "fc_single n (Order 0 d 0) y_diff vs mu [] [] = Inr (replicate n mu)"
  using fc_single_forecast_spec[of "[]" 0 "[]" 0 y_diff vs n d mu]
  by (simp add: forecast_spec_constant)

lemma forecast_loop_constant:
  assumes ord: "model_order m = replicate nb (Order 0 0 0)"
    and mu: "model_mu m = replicate nb c"
    and ar: "model_ar_params m = replicate nb []"
    and ma: "model_ma_params m = replicate nb []"
    and ys: "shape1 (model_y m) = nb"
    and vs: "nb \<le> shape1 vs"
  shows "k \<le> nb \<Longrightarrow>
     forecast_loop m n vs [k..<nb]
        (Array2 n nb (replicate n (replicate k c @ replicate (nb - k) (Fin 0))))
       = Inr (Array2 n nb (replicate n (replicate nb c)))"
proof (induction "nb - k" arbitrary: k)
  case 0
  then show ?case by simp
next
  case (Suc j)
  then have k: "k < nb" by simp
  have nk: "nb - k = Suc (nb - Suc k)" using k by simp
  have o: "ebind (item (model_order m) k) unpack_order = Inr (0, 0, 0)"
    using k by (simp add: ord item_def)
  have cv: "column vs k = Inr (map (\<lambda>r. r ! k) (rows vs))" using k vs by (simp add: column_def)
  have cy: "column (model_y m) k = Inr (map (\<lambda>r. r ! k) (rows (model_y m)))"
    using k ys by (simp add: column_def)
  have im: "item (model_mu m) k = Inr c" "item (model_ma_params m) k = Inr []"
    "item (model_ar_params m) k = Inr []"
    using k by (simp_all add: mu ar ma item_def)
  have ac: "assign_column (Array2 n nb (replicate n (replicate k c @ replicate (nb - k) (Fin 0)))) k (replicate n c)
      = Inr (Array2 n nb (replicate n (replicate (Suc k) c @ replicate (nb - Suc k) (Fin 0))))"
    using k unfolding nk
    by (auto simp: assign_column_def bget1_def list_update_append replicate_app_Cons_same
             intro!: nth_equalityI)
  have "forecast_loop m n vs (k # [Suc k..<nb])
        (Array2 n nb (replicate n (replicate k c @ replicate (nb - k) (Fin 0))))
      = forecast_loop m n vs [Suc k..<nb]
        (Array2 n nb (replicate n (replicate (Suc k) c @ replicate (nb - Suc k) (Fin 0))))"
    by (simp add: o cv cy im fc_single_constant ac Let_def)
  moreover have "[k..<nb] = k # [Suc k..<nb]" using k by (simp add: upt_conv_Cons)
  ultimately show ?case using Suc.hyps(1)[of "Suc k"] Suc.hyps(2) k by simp
qed

lemma forecast_constant:
  assumes ord: "model_order m = replicate nb (Order 0 0 0)"
    and mu: "model_mu m = replicate nb c"
    and ar: "model_ar_params m = replicate nb []"
    and ma: "model_ma_params m = replicate nb []"
    and ys: "shape1 (model_y m) = nb" and nbm: "model_num_batches m = nb"
    and rk: "run_kalman E m True False w = Inr ((ll, vs), w')"
    and vs: "nb \<le> shape1 vs"
  shows "forecast E m n w = Inr (Array2 n nb (replicate n (replicate nb c)), w')"
  using forecast_loop_constant[OF ord mu ar ma ys vs, of 0 n]
  by (simp add: forecast_def Let_def bnd_def rk nbm lift_def)


text \<open>
  Claim C3. For an order \<open>(p, d, q)\<close>, coefficients \<open>ar\<close> of length \<open>p\<close> and \<open>ma\<close> of length
  \<open>q\<close>, a history of at least \<open>p\<close> values and at least \<open>q\<close> innovations, \<open>fc_single\<close> returns
  \<open>num_steps\<close> forecasts, and the forecast at step \<open>i\<close> is \<open>mu * (1 - sum(ar))\<close> plus the dot
  product of \<open>ar\<close> with the trailing \<open>p\<close> values of the history followed by the forecasts
  made before step \<open>i\<close> (each forecast is appended to that buffer), plus, while \<open>i < q\<close>, the
  dot product of \<open>ma\<close> with the trailing \<open>q\<close> entries of the innovations followed by zeros.
  And for a model whose members all have order \<open>(0, 0, 0)\<close>, mean 5 and no coefficients,
  \<open>forecast\<close> for 5 steps returns 5 in every step for every batch member, whenever the
  kernel returns innovations with a column per member.
\<close>

theorem fc_single_forecast_recursion:
  "(length ar = p \<and> length ma = q \<and> p \<le> length y_diff \<and> q \<le> length vs \<longrightarrow>
      (\<exists>fc. fc_single n (Order p d q) y_diff vs mu ma ar = Inr fc \<and> length fc = n \<and>
         (\<forall>i<n. fc ! i = forecast_at p q mu ar ma y_diff vs (take i fc) i))) \<and>
   (model_order m = replicate nb (Order 0 0 0) \<and> model_mu m = replicate nb (Fin 5) \<and>
    model_ar_params m = replicate nb [] \<and> model_ma_params m = replicate nb [] \<and>
    shape1 (model_y m) = nb \<and> model_num_batches m = nb \<and>
    run_kalman E m True False w = Inr ((ll, innov), w') \<and> nb \<le> shape1 innov \<longrightarrow>
      forecast E m 5 w = Inr (Array2 5 nb (replicate 5 (replicate nb (Fin 5))), w'))"
proof (intro conjI impI)
  assume h: "length ar = p \<and> length ma = q \<and> p \<le> length y_diff \<and> q \<le> length vs"
  let ?F = "forecast_spec p q mu ar ma y_diff vs n"
  have "fc_single n (Order p d q) y_diff vs mu ma ar = Inr ?F"
    using h fc_single_forecast_spec by blast
  moreover have "length ?F = n" by (rule length_forecast_spec)
  moreover have "\<forall>i<n. ?F ! i = forecast_at p q mu ar ma y_diff vs (take i ?F) i"
    using forecast_spec_nth by blast
  ultimately show "\<exists>fc. fc_single n (Order p d q) y_diff vs mu ma ar = Inr fc \<and> length fc = n \<and>
         (\<forall>i<n. fc ! i = forecast_at p q mu ar ma y_diff vs (take i fc) i)"
    by blast
next
  assume "model_order m = replicate nb (Order 0 0 0) \<and> model_mu m = replicate nb (Fin 5) \<and>
    model_ar_params m = replicate nb [] \<and> model_ma_params m = replicate nb [] \<and>
    shape1 (model_y m) = nb \<and> model_num_batches m = nb \<and>
    run_kalman E m True False w = Inr ((ll, innov), w') \<and> nb \<le> shape1 innov"
  then show "forecast E m 5 w = Inr (Array2 5 nb (replicate 5 (replicate nb (Fin 5))), w')"
    using forecast_constant[of m nb "Fin 5" E w ll innov w' 5] by blast
qed

theorem fc_single_forecast_recursion_witness:
  "(\<exists>fc. fc_single 3 (Order 1 0 1) [Fin 1, Fin 2] [Fin 1] (Fin 0) [Fin 1] [Fin (1/2)] = Inr fc \<and>
      length fc = 3 \<and>
      (\<forall>i<3. fc ! i = forecast_at 1 1 (Fin 0) [Fin (1/2)] [Fin 1] [Fin 1, Fin 2] [Fin 1] (take i fc) i)) \<and>
   forecast (demo_externals [] (Fin 0))
     (ARIMAModel (replicate 2 (Order 0 0 0)) (replicate 2 (Fin 5)) (replicate 2 []) (replicate 2 [])
        (Array2 3 2 (replicate 3 (replicate 2 (Fin 5))))) 5 world0 =
     Inr (Array2 5 2 (replicate 5 (replicate 2 (Fin 5))),
          world0\<lparr>calls := [(Call_init_batched_kalman_matrices, ErrWarn), (Call_batched_kfilter, ErrWarn)]\<rparr>)"
proof -
  let ?m = "ARIMAModel (replicate 2 (Order 0 0 0)) (replicate 2 (Fin 5)) (replicate 2 []) (replicate 2 [])
        (Array2 3 2 (replicate 3 (replicate 2 (Fin 5))))"
  let ?w = "world0\<lparr>calls := [(Call_init_batched_kalman_matrices, ErrWarn), (Call_batched_kfilter, ErrWarn)]\<rparr>"
  have o: "model_order ?m = map (\<lambda>(p, d, q). Order p d q) [(0, 0, 0), (0, 0, 0)]"
    by (simp add: ARIMAModel_def numeral_2_eq_2)
  have rk: "run_kalman (demo_externals [] (Fin 0)) ?m True False world0 =
      Inr ((replicate 2 (Fin 0), Array2 3 2 (replicate 3 (replicate 2 (Fin 0)))), ?w)"
    unfolding run_kalman_tuples[OF o list.distinct(2), of "demo_externals [] (Fin 0)" True False]
    by (simp add: bnd_def call_ext_def demo_externals_def ARIMAModel_def world0_def fl_sum_def)
  have h: "model_order ?m = replicate 2 (Order 0 0 0) \<and> model_mu ?m = replicate 2 (Fin 5) \<and>
    model_ar_params ?m = replicate 2 [] \<and> model_ma_params ?m = replicate 2 [] \<and>
    shape1 (model_y ?m) = 2 \<and> model_num_batches ?m = 2 \<and>
    run_kalman (demo_externals [] (Fin 0)) ?m True False world0
       = Inr ((replicate 2 (Fin 0), Array2 3 2 (replicate 3 (replicate 2 (Fin 0)))), ?w) \<and>
    2 \<le> shape1 (Array2 3 2 (replicate 3 (replicate 2 (Fin 0::npfloat))))"
    using rk by (simp add: ARIMAModel_def)
  have g: "length [Fin (1/2)] = 1 \<and> length [Fin 1] = 1 \<and> 1 \<le> length [Fin 1, Fin 2] \<and> 1 \<le> length [Fin 1]"
    by simp
  note t = fc_single_forecast_recursion[where ar="[Fin (1/2)]" and p=1 and ma="[Fin 1]" and q=1 and y_diff="[Fin 1, Fin 2]"
      and vs="[Fin 1]" and n=3 and d=0 and mu="Fin 0" and m="?m" and nb=2 and E="demo_externals [] (Fin 0)"
      and w=world0 and ll="replicate 2 (Fin 0)"
      and innov="Array2 3 2 (replicate 3 (replicate 2 (Fin 0)))" and w'="?w"]
  from t g h show ?thesis by blast
qed


section \<open>Running the small instance of the collaborators\<close>

lemma demo_externals_fields:
  "init_batched_kalman_matrices (demo_externals fl bias) = (\<lambda>m ar ma. Inr (map fl_sum ar))"
  "batched_kfilter (demo_externals fl bias) = (\<lambda>m ys K gpu initP.
          Inr (map (fl_add bias) K,
               Array2 (shape0 ys) (shape1 ys)
                 (replicate (shape0 ys) (replicate (shape1 ys) (Fin 0)))))"
  "ar_transparams (demo_externals fl bias) = (\<lambda>m x. Inr x)"
  "ma_transparams (demo_externals fl bias) = (\<lambda>m x. Inr x)"
  "ar_invtransparams (demo_externals fl bias) = (\<lambda>m x. Inr x)"
  "ma_invtransparams (demo_externals fl bias) = (\<lambda>m x. Inr x)"
  "batched_fmin_lbfgs_b (demo_externals fl bias) = (\<lambda>f x0 nb gf iprint.
          bnd (f x0) (\<lambda>_. bnd (gf x0) (\<lambda>_. ret (x0, replicate nb 1, fl))))"
  by (simp_all add: demo_externals_def)

lemma unpack_demo: "unpack (Suc 0) 0 (Suc (Suc 0)) [a, b, c, d] = Inr ([a, c], [[b], [d]], [[], []])"
  by (simp add: unpack_def item_def slice_def)

lemma pack_demo: "pack (Suc 0) 0 (Suc (Suc 0)) [a, c] [[b], [d]] [[], []] = Inr [a, b, c, d]"
  by (simp add: pack_def item_def assign_slice_def slice_def zero_npfloat_def)

lemma batch_trans_demo:
  "batch_trans (demo_externals fl bias) (Suc 0) 0 (Suc (Suc 0)) [a, b, c, d] w =
     Inr ([a, b, c, d],
          w\<lparr>errmode := ErrWarn,
            calls := calls w @ [(Call_ar_transparams, ErrRaise), (Call_ma_transparams, ErrRaise),
                                (Call_ar_transparams, ErrRaise), (Call_ma_transparams, ErrRaise)]\<rparr>)"
  by (simp add: batch_trans_def unpack_demo pack_demo bnd_def lift_def seterr_def call_ext_def
        ret_def item_def demo_externals_fields)


section \<open>Properties of the finite-difference gradient\<close>

lemma bnd_Inr_iff:
  "bnd m f w = Inr r \<longleftrightarrow> (\<exists>v w1. m w = Inr (v, w1) \<and> f v w1 = Inr r)"
  by (auto simp: bnd_def split: sum.splits)

lemma lift_Inr_iff: "lift r w = Inr (v, w') \<longleftrightarrow> r = Inr v \<and> w' = w"
  by (auto simp: lift_def split: sum.splits)

lemma ebind_Inr_iff: "ebind r f = Inr v \<longleftrightarrow> (\<exists>u. r = Inr u \<and> f u = Inr v)"
  by (auto simp: ebind_def split: sum.splits)

lemma get_errmode_Inr_iff: "get_errmode w = Inr (m, w') \<longleftrightarrow> m = errmode w \<and> w' = w"
  by (auto simp: get_errmode_def)

lemma seterr_Inr_iff: "seterr m w = Inr (u, w') \<longleftrightarrow> w' = w\<lparr>errmode := m\<rparr>"
  by (auto simp: seterr_def)

lemma ret_Inr_iff: "ret v w = Inr (v', w') \<longleftrightarrow> v' = v \<and> w' = w"
  by (auto simp: ret_def)

lemma strided_count: "i < np \<Longrightarrow> (nb * np - i + np - 1) div np = (nb::nat)"
proof (cases nb)
  case 0
  assume "i < np"
  then show ?thesis using 0 by simp
next
  case (Suc k)
  assume i: "i < np"
  have "np \<le> nb * np" using Suc by simp
  then have "nb * np - i + np - 1 = (np - 1 - i) + nb * np"
    using i by arith
  moreover have "np - 1 - i < np" using i by arith
  then have "((np - 1 - i) + nb * np) div np = nb" by simp
  ultimately show ?thesis by simp
qed

lemma strided_slots:
  "i < np \<Longrightarrow> strided i np (nb * np) = map (\<lambda>b. i + b * np) [0..<nb]"
  by (simp only: strided_def strided_count)

lemma assign_indices_length: "length (assign_indices a js vs) = length a"
  by (induction a js vs rule: assign_indices.induct) simp_all

lemma assign_indices_other:
  "k \<notin> set js \<Longrightarrow> assign_indices a js vs ! k = a ! k"
  by (induction a js vs rule: assign_indices.induct) auto

lemma assign_indices_nth:
  "distinct js \<Longrightarrow> length vs = length js \<Longrightarrow> \<forall>j\<in>set js. j < length a \<Longrightarrow> b < length js \<Longrightarrow>
   assign_indices a js vs ! (js ! b) = vs ! b"
proof (induction a js vs arbitrary: b rule: assign_indices.induct)
  case (1 a j js v vs)
  show ?case
  proof (cases b)
    case 0
    have "j \<notin> set js" using 1(2) by simp
    then have "assign_indices (a[j := v]) js vs ! j = (a[j := v]) ! j"
      by (rule assign_indices_other)
    then show ?thesis using 0 1(4) by simp
  next
    case (Suc c)
    then show ?thesis using 1 by simp
  qed
qed simp_all

lemma slot_mod: "i < np \<Longrightarrow> (i + b * np) mod np = (i::nat)"
  by simp

lemma store_gradient_slots:
  assumes sg: "store_gradient nb np i grad g = Inr grad1"
    and lg: "length grad = nb * np" and i: "i < np"
  shows "length g = nb \<and> length grad1 = nb * np \<and>
         (\<forall>b<nb. grad1 ! (i + b * np) = g ! b) \<and>
         (\<forall>k. k mod np \<noteq> i \<longrightarrow> grad1 ! k = grad ! k)"
proof (cases "nb = 1")
  case True
  from sg True obtain s where g: "g = [s]" and g1: "grad1 = grad[i := s]"
    using lg i by (auto simp: store_gradient_def scalar_of_def ebind_Inr_iff split: list.splits if_splits)
  have "\<forall>k. k mod np \<noteq> i \<longrightarrow> grad1 ! k = grad ! k"
    using i g1 by (metis mod_less nth_list_update_neq)
  then show ?thesis using True g g1 lg i by simp
next
  case False
  let ?js = "map (\<lambda>b. i + b * np) [0..<nb]"
  have st: "strided i np (length grad) = ?js" using strided_slots[OF i] lg by simp
  from sg False have l: "length g = nb" and g1: "grad1 = assign_indices grad ?js g"
    by (auto simp: store_gradient_def st split: if_splits)
  have d: "distinct ?js" using i by (auto simp: distinct_map inj_on_def)
  have inb: "\<forall>j\<in>set ?js. j < length grad"
  proof
    fix j assume "j \<in> set ?js"
    then obtain b where b: "b < nb" "j = i + b * np" by auto
    then have "i + b * np < np + b * np" using i by simp
    also have "\<dots> = Suc b * np" by simp
    also have "\<dots> \<le> nb * np" using b(1) by (intro mult_le_mono1) simp
    finally show "j < length grad" using b lg by simp
  qed
  have a: "\<forall>b<nb. grad1 ! (i + b * np) = g ! b"
  proof (intro allI impI)
    fix b assume b: "b < nb"
    have "assign_indices grad ?js g ! (?js ! b) = g ! b"
      using assign_indices_nth[OF d _ inb, of g b] l b by simp
    then show "grad1 ! (i + b * np) = g ! b" using b g1 by simp
  qed
  have f: "\<forall>k. k mod np \<noteq> i \<longrightarrow> grad1 ! k = grad ! k"
  proof (intro allI impI)
    fix k assume "k mod np \<noteq> i"
    then have "k \<notin> set ?js" using i by auto
    then show "grad1 ! k = grad ! k" unfolding g1 by (rule assign_indices_other)
  qed
  show ?thesis using l a f g1 lg by (simp add: assign_indices_length)
qed

lemma replicate_update_same: "(replicate n z)[i := z] = replicate n z"
  by (induction n arbitrary: i) (auto split: nat.splits)

lemma replicate_update_reset: "((replicate n z)[i := v])[i := z] = replicate n z"
  by (simp add: replicate_update_same)

lemma ll_gf_loop_step:
  assumes run: "ll_gf_loop E nb np order y x h gpu tf (i # js) (replicate np (Fin 0), grad) w = Inr (r, w')"
  shows "\<exists>g grad1 w1. gradient_of_position E nb np order y x h gpu tf i g \<and>
           store_gradient nb np i grad g = Inr grad1 \<and> errmode w1 = ErrRaise \<and>
           ll_gf_loop E nb np order y x h gpu tf js (replicate np (Fin 0), grad1) w1 = Inr (r, w')"
proof -
  let ?pert = "perturbation nb np h i"
  from run obtain x_ph v1 w2 x_mh v2 w3 g grad1 where
    a: "np_vec (np_add (errmode w)) x ?pert = Inr x_ph"
    and b: "ll_f E nb np order y x_ph False gpu tf w = Inr (v1, w2)"
    and c: "np_vec (np_sub (errmode w2)) x ?pert = Inr x_mh"
    and d: "ll_f E nb np order y x_mh False gpu tf w2 = Inr (v2, w3)"
    and e: "(case (v1, v2) of
               (Vector a, Vector b) \<Rightarrow>
                 central_difference (errmode (w3\<lparr>errmode := ErrRaise\<rparr>)) a b h
             | _ \<Rightarrow> Inl TypeError) = Inr g"
    and f: "store_gradient nb np i grad g = Inr grad1"
    and k: "ll_gf_loop E nb np order y x h gpu tf js (replicate np (Fin 0), grad1)
              (w3\<lparr>errmode := ErrRaise\<rparr>) = Inr (r, w')"
    by (auto simp: Let_def bnd_Inr_iff lift_Inr_iff get_errmode_Inr_iff seterr_Inr_iff
          perturbation_def replicate_update_same)
  from e obtain llp llm where v: "v1 = Vector llp" "v2 = Vector llm"
    and cd: "central_difference ErrRaise llp llm h = Inr g"
    by (auto split: np_value.splits)
  have "gradient_of_position E nb np order y x h gpu tf i g"
    unfolding gradient_of_position_def using a b c d cd v by blast
  moreover have "errmode (w3\<lparr>errmode := ErrRaise\<rparr>) = ErrRaise" by simp
  ultimately show ?thesis using f k by blast
qed

lemma ll_gf_loop_slots:
  "ll_gf_loop E nb np order y x h gpu tf js (replicate np (Fin 0), grad) w = Inr ((fd', grad'), w') \<Longrightarrow>
   length grad = nb * np \<Longrightarrow> \<forall>j\<in>set js. j < np \<Longrightarrow> distinct js \<Longrightarrow>
   length grad' = nb * np \<and>
   (\<forall>j\<in>set js. slots_hold E nb np order y x h gpu tf grad' j) \<and>
   (\<forall>k. k mod np \<notin> set js \<longrightarrow> grad' ! k = grad ! k)"
proof (induction js arbitrary: grad w)
  case Nil
  then show ?case by (simp add: ret_def)
next
  case (Cons i js)
  from ll_gf_loop_step[OF Cons.prems(1)] obtain g grad1 w1 where
    gp: "gradient_of_position E nb np order y x h gpu tf i g"
    and sg: "store_gradient nb np i grad g = Inr grad1"
    and rest: "ll_gf_loop E nb np order y x h gpu tf js (replicate np (Fin 0), grad1) w1 = Inr ((fd', grad'), w')"
    by blast
  have i: "i < np" using Cons.prems(3) by simp
  note s = store_gradient_slots[OF sg Cons.prems(2) i]
  have ih: "length grad' = nb * np \<and>
   (\<forall>j\<in>set js. slots_hold E nb np order y x h gpu tf grad' j) \<and>
   (\<forall>k. k mod np \<notin> set js \<longrightarrow> grad' ! k = grad1 ! k)"
    using Cons.IH[OF rest] s Cons.prems(3,4) by simp
  have "i \<notin> set js" using Cons.prems(4) by simp
  then have "\<forall>b<nb. grad' ! (i + b * np) = g ! b"
    using ih s i by (simp add: slot_mod)
  then have "slots_hold E nb np order y x h gpu tf grad' i"
    unfolding slots_hold_def using gp s by blast
  moreover have "\<forall>k. k mod np \<notin> set (i # js) \<longrightarrow> grad' ! k = grad ! k"
    using ih s by simp
  ultimately show ?case using ih by simp
qed

lemma ll_gf_slots:
  assumes "ll_gf E nb np order y x h gpu tf w = Inr (grad, w')"
  shows "length x = nb * np \<and> length grad = length x \<and>
         (\<forall>i<np. slots_hold E nb np order y x h gpu tf grad i)"
proof -
  from assms have np: "np \<noteq> 0" and lx: "length x = nb * np"
    by (auto simp: ll_gf_def Let_def split: if_splits)
  from assms np lx obtain fd' where
    "ll_gf_loop E nb np order y x h gpu tf [0..<np] (replicate np (Fin 0), replicate (length x) (Fin 0)) w
       = Inr ((fd', grad), w')"
    by (auto simp: ll_gf_def Let_def bnd_Inr_iff ret_Inr_iff)
  from ll_gf_loop_slots[OF this] lx show ?thesis by simp
qed













lemma ll_f_demo:
  "ll_f (demo_externals fl bias) (Suc (Suc 0)) (Suc (Suc 0)) (Order (Suc 0) 0 0)
        (Array2 n (Suc (Suc 0)) ys) [a, b, c, d] False True True w =
     Inr (Vector [fl_add bias (fl_add (Fin 0) b), fl_add bias (fl_add (Fin 0) d)],
          w\<lparr>errmode := ErrWarn,
            calls := calls w @ [(Call_ar_transparams, ErrRaise), (Call_ma_transparams, ErrRaise),
                                (Call_ar_transparams, ErrRaise), (Call_ma_transparams, ErrRaise),
                                (Call_init_batched_kalman_matrices, ErrWarn),
                                (Call_batched_kfilter, ErrWarn)]\<rparr>)"
  by (simp add: ll_f_def bnd_def lift_def batch_trans_demo unpack_demo loglike_def run_kalman_def
        call_ext_def ret_def assert_same_d_def item_def ARIMAModel_def
        demo_externals_fields fl_sum_def)






section \<open>What the operations leave of the model\<close>








section \<open>Properties of the batch transform and of the optimizer driver\<close>

lemma call_ext_Inr_iff:
  "call_ext c f w = Inr (v, w') \<longleftrightarrow>
     f (errmode w) = Inr v \<and> w' = w\<lparr>calls := calls w @ [(c, errmode w)]\<rparr>"
  by (auto simp: call_ext_def split: sum.splits)

lemma batch_trans_loop_trace:
  "batch_trans_loop E ar ma js st w = Inr (st', w') \<Longrightarrow>
   errmode w' = errmode w \<and> stdout w' = stdout w \<and>
   calls w' = calls w @ concat (replicate (length js)
                [(Call_ar_transparams, errmode w), (Call_ma_transparams, errmode w)])"
proof (induction js arbitrary: st w)
  case Nil
  then show ?case by (simp add: ret_def)
next
  case (Cons ib js)
  obtain ar2 ma2 where st: "st = (ar2, ma2)" by (cases st)
  from Cons.prems obtain ari mai where
    rest: "batch_trans_loop E ar ma js (ar2 @ [ari], ma2 @ [mai])
       (w\<lparr>calls := calls w @ [(Call_ar_transparams, errmode w), (Call_ma_transparams, errmode w)]\<rparr>)
       = Inr (st', w')"
    unfolding st by (auto simp: bnd_Inr_iff lift_Inr_iff call_ext_Inr_iff)
  from Cons.IH[OF rest] show ?case by simp
qed

lemma batch_trans_trace:
  assumes "batch_trans E p q nb x w = Inr (Tx, w')"
  shows "errmode w' = ErrWarn \<and> stdout w' = stdout w \<and>
     calls w' = calls w @ concat (replicate nb
                  [(Call_ar_transparams, ErrRaise), (Call_ma_transparams, ErrRaise)])"
proof -
  from assms obtain mu ar ma st' w1 where
    lp: "batch_trans_loop E ar ma [0..<nb] ([], []) (w\<lparr>errmode := ErrRaise\<rparr>) = Inr (st', w1)"
    and w': "w' = w1\<lparr>errmode := ErrWarn\<rparr>"
    by (auto simp: batch_trans_def bnd_Inr_iff lift_Inr_iff seterr_Inr_iff split: prod.splits)
  from batch_trans_loop_trace[OF lp] show ?thesis using w' by simp
qed









lemma ll_gf_demo_w:
  "ll_gf (demo_externals fl (Fin 0)) (Suc (Suc 0)) (Suc (Suc 0)) (Order (Suc 0) 0 0)
      (Array2 n (Suc (Suc 0)) ys) [Fin a, Fin b, Fin c, Fin e] (Fin (1/2)) True True w
    = Inr ([Fin 0, Fin 1, Fin 0, Fin 1],
           w\<lparr>errmode := ErrRaise, calls := calls w @ demo_ll_f_calls @ demo_ll_f_calls @ demo_ll_f_calls @ demo_ll_f_calls\<rparr>)"
proof -
  have s0: "strided 0 (Suc (Suc 0)) (Suc (Suc (Suc (Suc 0)))) = [0, Suc (Suc 0)]"
    using strided_slots[of 0 "Suc (Suc 0)" "Suc (Suc 0)"] by simp
  have s1: "strided (Suc 0) (Suc (Suc 0)) (Suc (Suc (Suc (Suc 0)))) = [Suc 0, Suc (Suc (Suc 0))]"
    using strided_slots[of "Suc 0" "Suc (Suc 0)" "Suc (Suc 0)"] by simp
  show ?thesis
  by (simp add: ll_gf_def Let_def bnd_def lift_def ret_def get_errmode_def seterr_def
        np_tile_def np_vec_def bshape_def bget1_def np_add_def np_sub_def np_div_def fp_trap_def
        fl_sub_def ll_f_demo central_difference_def store_gradient_def s0 s1 demo_ll_f_calls_def)
qed

lemma fit_f_demo:
  "fit_f (demo_externals fl (Fin 0)) (Suc (Suc 0)) (Suc (Suc 0)) 3 (Order (Suc 0) 0 0)
      (Array2 3 (Suc (Suc 0)) ys) True [Fin a, Fin b, Fin c, Fin e] w
    = Inr ([Fin (- b / 2), Fin (- e / 2)], w\<lparr>errmode := ErrWarn, calls := calls w @ demo_ll_f_calls\<rparr>)"
  by (simp add: fit_f_def bnd_def ll_f_demo scale_by_samples_def get_errmode_def lift_def
        np_div_def fp_trap_def demo_ll_f_calls_def)

lemma fit_gf_demo:
  "fit_gf (demo_externals fl (Fin 0)) (Suc (Suc 0)) (Suc (Suc 0)) 3 (Order (Suc 0) 0 0)
      (Array2 3 (Suc (Suc 0)) ys) (Fin (1/2)) True [Fin a, Fin b, Fin c, Fin e] w
    = Inr ([Fin 0, Fin (- 1 / 2), Fin 0, Fin (- 1 / 2)],
           w\<lparr>errmode := ErrRaise, calls := calls w @ demo_ll_f_calls @ demo_ll_f_calls @ demo_ll_f_calls @ demo_ll_f_calls\<rparr>)"
  by (simp add: fit_gf_def bnd_def ll_gf_demo_w scale_by_samples_def get_errmode_def lift_def
        np_div_def fp_trap_def)

lemma fit_demo:
  "fit (demo_externals fl (Fin 0)) (Array2 3 2 ys) (Order 1 0 0) (Shared (Fin 0) [Fin 0] [])
       od (Fin (1/2)) True am w =
   Inr ((ARIMAModel [Order 1 0 0, Order 1 0 0] [Fin 0, Fin 0] [[Fin 0], [Fin 0]] [[], []]
           (Array2 3 2 ys))\<lparr>model_niter := Some [1, 1]\<rparr>,
        w\<lparr>errmode := ErrWarn,
          stdout := stdout w @
            (if list_ex (\<lambda>flag. flag \<noteq> 0) fl
             then [''WARNING(`fit()`): Some batch members had optimizer problems.''] else []),
          calls := calls w @
            [(Call_ar_invtransparams, ErrRaise), (Call_ma_invtransparams, ErrRaise),
             (Call_batched_fmin_lbfgs_b, ErrRaise)] @
            demo_ll_f_calls @ demo_ll_f_calls @ demo_ll_f_calls @ demo_ll_f_calls @ demo_ll_f_calls @
            [(Call_ar_transparams, ErrRaise), (Call_ma_transparams, ErrRaise),
             (Call_ar_transparams, ErrRaise), (Call_ma_transparams, ErrRaise)]\<rparr>)"
  by (simp add: fit_def Let_def bnd_def seterr_def lift_def fit_x0_def call_ext_def
        demo_externals_fields np_tile_def log_call_def ret_def fit_f_demo fit_gf_demo
        print_line_def batch_trans_demo unpack_demo numeral_2_eq_2)

lemma batch_invtrans_loop_trace:
  "batch_invtrans_loop E ar ma js st w = Inr (st', w') \<Longrightarrow>
   errmode w' = errmode w \<and> stdout w' = stdout w \<and>
   calls w' = calls w @ concat (replicate (length js)
                [(Call_ar_invtransparams, errmode w), (Call_ma_invtransparams, errmode w)])"
proof (induction js arbitrary: st w)
  case Nil
  then show ?case by (simp add: ret_def)
next
  case (Cons ib js)
  obtain ar2 ma2 where st: "st = (ar2, ma2)" by (cases st)
  from Cons.prems obtain ari mai where
    rest: "batch_invtrans_loop E ar ma js (ar2 @ [ari], ma2 @ [mai])
       (w\<lparr>calls := calls w @ [(Call_ar_invtransparams, errmode w), (Call_ma_invtransparams, errmode w)]\<rparr>)
       = Inr (st', w')"
    unfolding st by (auto simp: bnd_Inr_iff lift_Inr_iff call_ext_Inr_iff)
  from Cons.IH[OF rest] show ?case by simp
qed

lemma fit_x0_trace:
  assumes "fit_x0 E p q nb init w = Inr (x0, w1)"
  shows "errmode w1 = errmode w \<and> stdout w1 = stdout w \<and>
     calls w1 = calls w @ concat (replicate (case init of Shared _ _ _ \<Rightarrow> 1 | PerMember _ _ _ \<Rightarrow> nb)
                  [(Call_ar_invtransparams, errmode w), (Call_ma_invtransparams, errmode w)])"
proof (cases init)
  case (Shared mu0 ar0 ma0)
  then show ?thesis using assms
    by (auto simp: fit_x0_def bnd_Inr_iff call_ext_Inr_iff ret_Inr_iff)
next
  case (PerMember mu0 ar0 ma0)
  with assms obtain mu ar ma st' where
    "batch_invtrans_loop E ar ma [0..<nb] ([], []) w = Inr (st', w1)"
    by (auto simp: fit_x0_def batch_invtrans_def bnd_Inr_iff lift_Inr_iff split: prod.splits)
  from batch_invtrans_loop_trace[OF this] show ?thesis using PerMember by simp
qed

lemma ll_gf_loop_mode:
  "ll_gf_loop E nb np order y x h gpu tf js (replicate np (Fin 0), grad) w = Inr (r, w') \<Longrightarrow>
   js \<noteq> [] \<Longrightarrow> errmode w' = ErrRaise"
proof (induction js arbitrary: grad w)
  case Nil
  then show ?case by simp
next
  case (Cons i js)
  from ll_gf_loop_step[OF Cons.prems(1)] obtain grad1 w1 where
    m: "errmode w1 = ErrRaise"
    and rest: "ll_gf_loop E nb np order y x h gpu tf js (replicate np (Fin 0), grad1) w1 = Inr (r, w')"
    by blast
  show ?case
  proof (cases "js = []")
    case True
    then show ?thesis using rest m by (simp add: ret_def)
  next
    case False
    then show ?thesis using Cons.IH[OF rest] by simp
  qed
qed

lemma ll_gf_mode:
  assumes "ll_gf E nb np order y x h gpu tf w = Inr (grad, w')"
  shows "errmode w' = ErrRaise"
proof -
  from assms have np: "np \<noteq> 0"
    by (auto simp: ll_gf_def Let_def split: if_splits)
  from assms np obtain fd' where
    "ll_gf_loop E nb np order y x h gpu tf [0..<np] (replicate np (Fin 0), replicate (length x) (Fin 0)) w
       = Inr ((fd', grad), w')"
    by (auto simp: ll_gf_def Let_def bnd_Inr_iff ret_Inr_iff split: if_splits)
  from ll_gf_loop_mode[OF this] np show ?thesis by simp
qed

lemma fit_steps:
  assumes "fit E y (Order p d q) init od h gpu am w = Inr (m, w')"
  shows "\<exists>x0 w1 x niter flags w2 w3 Tx.
     fit_x0 E p q (shape1 y) init (w\<lparr>errmode := ErrRaise\<rparr>) = Inr (x0, w1) \<and>
     batched_fmin_lbfgs_b E
        (fit_f E (shape1 y) (1 + p + q) (shape0 y) (Order p d q) y gpu) x0 (shape1 y)
        (fit_gf E (shape1 y) (1 + p + q) (shape0 y) (Order p d q) y h gpu) od
        (w1\<lparr>calls := calls w1 @ [(Call_batched_fmin_lbfgs_b, ErrRaise)]\<rparr>)
       = Inr ((x, niter, flags), w2) \<and>
     batch_trans E p q (shape1 y) x w3 = Inr (Tx, w')"
proof -
  from assms obtain x0 w1 where
    a: "fit_x0 E p q (shape1 y) init (w\<lparr>errmode := ErrRaise\<rparr>) = Inr (x0, w1)"
    by (auto simp: fit_def Let_def bnd_Inr_iff seterr_Inr_iff lift_Inr_iff)
  have m1: "errmode w1 = ErrRaise" using fit_x0_trace[OF a] by simp
  from assms a obtain x niter flags w2 w3 Tx where
    "batched_fmin_lbfgs_b E
        (fit_f E (shape1 y) (1 + p + q) (shape0 y) (Order p d q) y gpu) x0 (shape1 y)
        (fit_gf E (shape1 y) (1 + p + q) (shape0 y) (Order p d q) y h gpu) od
        (w1\<lparr>calls := calls w1 @ [(Call_batched_fmin_lbfgs_b, errmode w1)]\<rparr>)
       = Inr ((x, niter, flags), w2)"
    "batch_trans E p q (shape1 y) x w3 = Inr (Tx, w')"
    by (auto simp: fit_def Let_def bnd_Inr_iff seterr_Inr_iff lift_Inr_iff log_call_def
          ret_Inr_iff split: if_splits prod.splits)
  then show ?thesis using a m1 by auto
qed





text \<open>
  Claim C7 as stated (strict trapping during optimization and gradient computation,
  permissive mode exactly around the stationarity transform's internal calls) does not
  hold. In the run below every call of a stationarity transform is made under the mode
  \<open>'raise'\<close>, none under \<open>'warn'\<close>; and every evaluation of the likelihood kernel inside the
  optimization is made under \<open>'warn'\<close>, none under \<open>'raise'\<close>.
\<close>

theorem fit_fp_mode_counterexample:
  "fit (demo_externals [0, 0] (Fin 0)) (Array2 3 2 (replicate 3 [Fin 0, Fin 0])) (Order 1 0 0)
       (Shared (Fin 0) [Fin 0] []) (- 1) (Fin (1/2)) True 1000 world0 =
   Inr ((ARIMAModel [Order 1 0 0, Order 1 0 0] [Fin 0, Fin 0] [[Fin 0], [Fin 0]] [[], []]
           (Array2 3 2 (replicate 3 [Fin 0, Fin 0])))\<lparr>model_niter := Some [1, 1]\<rparr>,
        \<lparr>errmode = ErrWarn, stdout = [],
         calls =
           [(Call_ar_invtransparams, ErrRaise), (Call_ma_invtransparams, ErrRaise),
            (Call_batched_fmin_lbfgs_b, ErrRaise)] @
           demo_ll_f_calls @ demo_ll_f_calls @ demo_ll_f_calls @ demo_ll_f_calls @ demo_ll_f_calls @
           [(Call_ar_transparams, ErrRaise), (Call_ma_transparams, ErrRaise),
            (Call_ar_transparams, ErrRaise), (Call_ma_transparams, ErrRaise)]\<rparr>) \<and>
   (Call_ar_transparams, ErrRaise) \<in> set demo_ll_f_calls \<and>
   (Call_ar_transparams, ErrWarn) \<notin> set demo_ll_f_calls \<and>
   (Call_batched_kfilter, ErrWarn) \<in> set demo_ll_f_calls \<and>
   (Call_batched_kfilter, ErrRaise) \<notin> set demo_ll_f_calls"
proof -
  have "fit (demo_externals [0, 0] (Fin 0)) (Array2 3 2 (replicate 3 [Fin 0, Fin 0])) (Order 1 0 0)
       (Shared (Fin 0) [Fin 0] []) (- 1) (Fin (1/2)) True 1000 world0 =
   Inr ((ARIMAModel [Order 1 0 0, Order 1 0 0] [Fin 0, Fin 0] [[Fin 0], [Fin 0]] [[], []]
           (Array2 3 2 (replicate 3 [Fin 0, Fin 0])))\<lparr>model_niter := Some [1, 1]\<rparr>,
        \<lparr>errmode = ErrWarn, stdout = [],
         calls =
           [(Call_ar_invtransparams, ErrRaise), (Call_ma_invtransparams, ErrRaise),
            (Call_batched_fmin_lbfgs_b, ErrRaise)] @
           demo_ll_f_calls @ demo_ll_f_calls @ demo_ll_f_calls @ demo_ll_f_calls @ demo_ll_f_calls @
           [(Call_ar_transparams, ErrRaise), (Call_ma_transparams, ErrRaise),
            (Call_ar_transparams, ErrRaise), (Call_ma_transparams, ErrRaise)]\<rparr>)"
    using fit_demo[of "[0, 0]" "replicate 3 [Fin 0, Fin 0]" "- 1" 1000 world0]
    by (simp add: world0_def)
  then show ?thesis by (simp add: demo_ll_f_calls_def)
qed


text \<open>
  Claim C7, amended. \<open>fit\<close> enables strict trapping on entry: the inverse transforms of the
  initial parameters run under it and the optimizer is entered under it. \<open>batch_trans\<close>
  enables strict trapping immediately before the stationarity transform's internal calls,
  every one of which runs under it, and switches to the permissive mode \<open>'warn'\<close>
  immediately after them: that is the mode it returns in, and the mode \<open>fit\<close> returns in.
  \<open>ll_gf\<close> enables strict trapping before it forms each central difference, and returns in
  strict mode.
\<close>

theorem fp_mode_discipline:
  "(batch_trans E p q nb x w = Inr (Tx, w') \<longrightarrow>
      errmode w' = ErrWarn \<and>
      calls w' = calls w @ concat (replicate nb
                   [(Call_ar_transparams, ErrRaise), (Call_ma_transparams, ErrRaise)])) \<and>
   (ll_gf E nb np order y x h gpu tf w = Inr (grad, w') \<longrightarrow>
      errmode w' = ErrRaise \<and>
      (\<forall>i<np. \<exists>g. gradient_of_position E nb np order y x h gpu tf i g)) \<and>
   (fit E y (Order p d q) init od h gpu am w = Inr (m, w') \<longrightarrow>
      errmode w' = ErrWarn \<and>
      (\<exists>x0 w1 r w2.
         fit_x0 E p q (shape1 y) init (w\<lparr>errmode := ErrRaise\<rparr>) = Inr (x0, w1) \<and>
         errmode w1 = ErrRaise \<and>
         calls w1 = calls w @ concat (replicate (case init of Shared _ _ _ \<Rightarrow> 1 | PerMember _ _ _ \<Rightarrow> shape1 y)
                      [(Call_ar_invtransparams, ErrRaise), (Call_ma_invtransparams, ErrRaise)]) \<and>
         batched_fmin_lbfgs_b E
            (fit_f E (shape1 y) (1 + p + q) (shape0 y) (Order p d q) y gpu) x0 (shape1 y)
            (fit_gf E (shape1 y) (1 + p + q) (shape0 y) (Order p d q) y h gpu) od
            (w1\<lparr>calls := calls w1 @ [(Call_batched_fmin_lbfgs_b, ErrRaise)]\<rparr>) = Inr (r, w2)))"
proof (intro conjI impI)
  assume a: "batch_trans E p q nb x w = Inr (Tx, w')"
  from batch_trans_trace[OF a]
  show "errmode w' = ErrWarn"
    "calls w' = calls w @ concat (replicate nb
                   [(Call_ar_transparams, ErrRaise), (Call_ma_transparams, ErrRaise)])"
    by simp_all
next
  assume a: "ll_gf E nb np order y x h gpu tf w = Inr (grad, w')"
  show "errmode w' = ErrRaise" by (rule ll_gf_mode[OF a])
  show "\<forall>i<np. \<exists>g. gradient_of_position E nb np order y x h gpu tf i g"
    using ll_gf_slots[OF a] by (auto simp: slots_hold_def)
next
  assume a: "fit E y (Order p d q) init od h gpu am w = Inr (m, w')"
  from fit_steps[OF a] obtain x0 w1 x niter flags w2 w3 Tx where
    s: "fit_x0 E p q (shape1 y) init (w\<lparr>errmode := ErrRaise\<rparr>) = Inr (x0, w1)"
    "batched_fmin_lbfgs_b E
        (fit_f E (shape1 y) (1 + p + q) (shape0 y) (Order p d q) y gpu) x0 (shape1 y)
        (fit_gf E (shape1 y) (1 + p + q) (shape0 y) (Order p d q) y h gpu) od
        (w1\<lparr>calls := calls w1 @ [(Call_batched_fmin_lbfgs_b, ErrRaise)]\<rparr>)
       = Inr ((x, niter, flags), w2)"
    "batch_trans E p q (shape1 y) x w3 = Inr (Tx, w')"
    by blast
  show "errmode w' = ErrWarn" using batch_trans_trace[OF s(3)] by simp
  show "\<exists>x0 w1 r w2.
         fit_x0 E p q (shape1 y) init (w\<lparr>errmode := ErrRaise\<rparr>) = Inr (x0, w1) \<and>
         errmode w1 = ErrRaise \<and>
         calls w1 = calls w @ concat (replicate (case init of Shared _ _ _ \<Rightarrow> 1 | PerMember _ _ _ \<Rightarrow> shape1 y)
                      [(Call_ar_invtransparams, ErrRaise), (Call_ma_invtransparams, ErrRaise)]) \<and>
         batched_fmin_lbfgs_b E
            (fit_f E (shape1 y) (1 + p + q) (shape0 y) (Order p d q) y gpu) x0 (shape1 y)
            (fit_gf E (shape1 y) (1 + p + q) (shape0 y) (Order p d q) y h gpu) od
            (w1\<lparr>calls := calls w1 @ [(Call_batched_fmin_lbfgs_b, ErrRaise)]\<rparr>) = Inr (r, w2)"
    using s(1,2) fit_x0_trace[OF s(1)] by (intro exI[of _ x0] exI[of _ w1]) auto
qed

theorem fp_mode_discipline_witness:
  "errmode (world0\<lparr>errmode := ErrWarn,
        calls := [(Call_ar_transparams, ErrRaise), (Call_ma_transparams, ErrRaise),
                  (Call_ar_transparams, ErrRaise), (Call_ma_transparams, ErrRaise)]\<rparr>) = ErrWarn \<and>
   (\<exists>w'. ll_gf (demo_externals [] (Fin 0)) 2 2 (Order 1 0 0)
          (Array2 3 2 (replicate 3 [Fin 0, Fin 0])) [Fin 1, Fin 2, Fin 3, Fin 4] (Fin (1/2)) True True world0
        = Inr ([Fin 0, Fin 1, Fin 0, Fin 1], w') \<and> errmode w' = ErrRaise) \<and>
   (\<exists>m w'. fit (demo_externals [0, 0] (Fin 0)) (Array2 3 2 (replicate 3 [Fin 0, Fin 0])) (Order 1 0 0)
       (Shared (Fin 0) [Fin 0] []) (- 1) (Fin (1/2)) True 1000 world0 = Inr (m, w') \<and>
       errmode w' = ErrWarn)"
proof -
  let ?E = "demo_externals [] (Fin 0)"
  let ?y = "Array2 3 2 (replicate 3 [Fin 0, Fin 0])"
  let ?w1 = "world0\<lparr>errmode := ErrWarn,
        calls := [(Call_ar_transparams, ErrRaise), (Call_ma_transparams, ErrRaise),
                  (Call_ar_transparams, ErrRaise), (Call_ma_transparams, ErrRaise)]\<rparr>"
  have bt: "batch_trans ?E 1 0 2 [Fin 1, Fin 2, Fin 3, Fin 4] world0 = Inr ([Fin 1, Fin 2, Fin 3, Fin 4], ?w1)"
    using batch_trans_demo[of "[]" "Fin 0" "Fin 1" "Fin 2" "Fin 3" "Fin 4" world0]
    by (simp add: numeral_2_eq_2 world0_def)
  obtain w2 where g: "ll_gf ?E 2 2 (Order 1 0 0) ?y [Fin 1, Fin 2, Fin 3, Fin 4] (Fin (1/2)) True True world0
        = Inr ([Fin 0, Fin 1, Fin 0, Fin 1], w2)"
    using ll_gf_demo_w[of "[]" 3 "replicate 3 [Fin 0, Fin 0]" 1 2 3 4 world0]
    by (simp add: numeral_2_eq_2)
  obtain m w3 where f: "fit (demo_externals [0, 0] (Fin 0)) ?y (Order 1 0 0)
       (Shared (Fin 0) [Fin 0] []) (- 1) (Fin (1/2)) True 1000 world0 = Inr (m, w3)"
    using fit_demo[of "[0, 0]" "replicate 3 [Fin 0, Fin 0]" "- 1" 1000 world0] by simp
  have a: "errmode ?w1 = ErrWarn"
    using fp_mode_discipline[where E="?E" and p=1 and q=0 and nb=2 and x="[Fin 1, Fin 2, Fin 3, Fin 4]"
        and w=world0 and Tx="[Fin 1, Fin 2, Fin 3, Fin 4]" and w'="?w1"] bt by blast
  have b: "errmode w2 = ErrRaise"
    using fp_mode_discipline[where E="?E" and nb=2 and np=2 and order="Order 1 0 0" and y="?y"
        and x="[Fin 1, Fin 2, Fin 3, Fin 4]" and h="Fin (1/2)" and gpu=True and tf=True
        and w=world0 and grad="[Fin 0, Fin 1, Fin 0, Fin 1]" and w'=w2] g by blast
  have c: "errmode w3 = ErrWarn"
    using fp_mode_discipline[where E="demo_externals [0, 0] (Fin 0)" and y="?y" and p=1 and d=0 and q=0
        and init="Shared (Fin 0) [Fin 0] []" and od="- 1" and h="Fin (1/2)" and gpu=True
        and am=1000 and w=world0 and m=m and w'=w3] f by blast
  show ?thesis using a b c g f by blast
qed

lemma item_Inr_iff: "item xs i = Inr v \<longleftrightarrow> i < length xs \<and> v = xs ! i"
  by (auto simp: item_def)

lemma grid_update_loop_keeps:
  "grid_update_loop p d q b ps (bm, bi) = Inr (bm', bi') \<Longrightarrow>
   \<forall>(j, v)\<in>set ps. j = i \<longrightarrow> \<not> fl_less v (bi ! i) \<Longrightarrow>
   model_order bm' ! i = model_order bm ! i \<and> model_mu bm' ! i = model_mu bm ! i \<and>
   model_ar_params bm' ! i = model_ar_params bm ! i \<and>
   model_ma_params bm' ! i = model_ma_params bm ! i \<and> bi' ! i = bi ! i"
proof (induction ps arbitrary: bm bi)
  case Nil
  then show ?case by simp
next
  case (Cons a ps)
  obtain j v where a: "a = (j, v)" by (cases a)
  from Cons.prems(1) have jl: "j < length bi"
    unfolding a by (auto simp: ebind_Inr_iff item_Inr_iff)
  show ?case
  proof (cases "fl_less v (bi ! j)")
    case True
    then have ne: "j \<noteq> i" using Cons.prems(2) a by auto
    let ?bm1 = "bm\<lparr> model_order := (model_order bm)[j := Order p d q],
                    model_mu := (model_mu bm)[j := model_mu b ! j],
                    model_ar_params := (model_ar_params bm)[j := model_ar_params b ! j],
                    model_ma_params := (model_ma_params bm)[j := model_ma_params b ! j] \<rparr>"
    from Cons.prems(1) True jl have rest:
      "grid_update_loop p d q b ps (?bm1, bi[j := v]) = Inr (bm', bi')"
      unfolding a by (auto simp: ebind_Inr_iff item_Inr_iff split: if_splits)
    have h: "\<forall>(j', v')\<in>set ps. j' = i \<longrightarrow> \<not> fl_less v' (bi[j := v] ! i)"
      using Cons.prems(2) ne by auto
    from Cons.IH[OF rest h] ne show ?thesis by simp
  next
    case False
    from Cons.prems(1) False jl have rest:
      "grid_update_loop p d q b ps (bm, bi) = Inr (bm', bi')"
      unfolding a by (auto simp: ebind_Inr_iff item_Inr_iff split: if_splits)
    have h: "\<forall>(j', v')\<in>set ps. j' = i \<longrightarrow> \<not> fl_less v' (bi ! i)"
      using Cons.prems(2) by auto
    from Cons.IH[OF rest h] show ?thesis .
  qed
qed

lemma grid_search_loop_keeps:
  "grid_search_loop E y_b d method cands (bm, bi) w = Inr ((bm', bi'), w') \<Longrightarrow>
   \<forall>ic\<in>set (grid_scores E y_b d method cands w). i < length ic \<longrightarrow> \<not> fl_less (ic ! i) (bi ! i) \<Longrightarrow>
   model_order bm' ! i = model_order bm ! i \<and> model_mu bm' ! i = model_mu bm ! i \<and>
   model_ar_params bm' ! i = model_ar_params bm ! i \<and>
   model_ma_params bm' ! i = model_ma_params bm ! i \<and> bi' ! i = bi ! i"
proof (induction cands arbitrary: bm bi w)
  case Nil
  then show ?case by (simp add: ret_def)
next
  case (Cons c cands)
  obtain p q where c: "c = (p, q)" by (cases c)
  show ?case
  proof (cases "p = 0 \<and> q = 0")
    case True
    then show ?thesis using Cons c by simp
  next
    case False
    let ?fit = "fit E y_b (Order p d q) (Shared (Fin 0) (replicate p (Fin 0)) (replicate q (Fin 0)))
               (- 1) (Fin (1 / 10 ^ 9)) True 1000"
    let ?score = "\<lambda>b_model. if method = ''aic'' then aic E b_model
             else if method = ''bic'' then bic E b_model
             else lift (Inl NotImplementedError)"
    from Cons.prems(1) False obtain b_model w1 ic w2 bm1 bi1 where
      f: "?fit w = Inr (b_model, w1)" and s: "?score b_model w1 = Inr (ic, w2)"
      and u: "grid_update_loop p d q b_model (zip [0..<length ic] ic) (bm, bi) = Inr (bm1, bi1)"
      and r: "grid_search_loop E y_b d method cands (bm1, bi1) w2 = Inr ((bm', bi'), w')"
      unfolding c by (auto simp: bnd_Inr_iff lift_Inr_iff)
    have gs: "grid_scores E y_b d method (c # cands) w = ic # grid_scores E y_b d method cands w2"
      using False f s unfolding c by (auto simp: bnd_def)
    have hu: "\<forall>(j, v)\<in>set (zip [0..<length ic] ic). j = i \<longrightarrow> \<not> fl_less v (bi ! i)"
    proof (clarify)
      fix v assume m: "(i, v) \<in> set (zip [0..<length ic] ic)" and l: "fl_less v (bi ! i)"
      then obtain k where k: "k < length ic" "[0..<length ic] ! k = i" "ic ! k = v"
        by (auto simp: in_set_zip)
      then have "i < length ic" "v = ic ! i" by auto
      then show False using Cons.prems(2) l gs by simp
    qed
    note k1 = grid_update_loop_keeps[OF u hu]
    have hr: "\<forall>ic\<in>set (grid_scores E y_b d method cands w2). i < length ic \<longrightarrow> \<not> fl_less (ic ! i) (bi1 ! i)"
      using Cons.prems(2) gs k1 by simp
    from Cons.IH[OF r hr] k1 show ?thesis by simp
  qed
qed

lemma ll_gf_demo_nan:
  "ll_gf (demo_externals fl NaN) (Suc (Suc 0)) (Suc (Suc 0)) (Order (Suc 0) 0 0)
      (Array2 n (Suc (Suc 0)) ys) [Fin a, Fin b, Fin c, Fin e] (Fin h) True True w
    = Inr ([NaN, NaN, NaN, NaN],
           w\<lparr>errmode := ErrRaise, calls := calls w @ demo_ll_f_calls @ demo_ll_f_calls @ demo_ll_f_calls @ demo_ll_f_calls\<rparr>)"
proof -
  have s0: "strided 0 (Suc (Suc 0)) (Suc (Suc (Suc (Suc 0)))) = [0, Suc (Suc 0)]"
    using strided_slots[of 0 "Suc (Suc 0)" "Suc (Suc 0)"] by simp
  have s1: "strided (Suc 0) (Suc (Suc 0)) (Suc (Suc (Suc (Suc 0)))) = [Suc 0, Suc (Suc (Suc 0))]"
    using strided_slots[of "Suc 0" "Suc (Suc 0)" "Suc (Suc 0)"] by simp
  show ?thesis
  by (simp add: ll_gf_def Let_def bnd_def lift_def ret_def get_errmode_def seterr_def
        np_tile_def np_vec_def bshape_def bget1_def np_add_def np_sub_def np_div_def fp_trap_def
        fl_sub_def ll_f_demo central_difference_def store_gradient_def s0 s1 demo_ll_f_calls_def)
qed

lemma fit_f_demo_nan:
  "fit_f (demo_externals fl NaN) (Suc (Suc 0)) (Suc (Suc 0)) 3 (Order (Suc 0) 0 0)
      (Array2 3 (Suc (Suc 0)) ys) True [Fin a, Fin b, Fin c, Fin e] w
    = Inr ([NaN, NaN], w\<lparr>errmode := ErrWarn, calls := calls w @ demo_ll_f_calls\<rparr>)"
  by (simp add: fit_f_def bnd_def ll_f_demo scale_by_samples_def get_errmode_def lift_def
        np_div_def fp_trap_def demo_ll_f_calls_def)

lemma fit_gf_demo_nan:
  "fit_gf (demo_externals fl NaN) (Suc (Suc 0)) (Suc (Suc 0)) 3 (Order (Suc 0) 0 0)
      (Array2 3 (Suc (Suc 0)) ys) (Fin h) True [Fin a, Fin b, Fin c, Fin e] w
    = Inr ([NaN, NaN, NaN, NaN],
           w\<lparr>errmode := ErrRaise, calls := calls w @ demo_ll_f_calls @ demo_ll_f_calls @ demo_ll_f_calls @ demo_ll_f_calls\<rparr>)"
  by (simp add: fit_gf_def bnd_def ll_gf_demo_nan scale_by_samples_def get_errmode_def lift_def
        np_div_def fp_trap_def)

lemma fit_demo_nan:
  "fit (demo_externals fl NaN) (Array2 3 2 ys) (Order (Suc 0) 0 0) (Shared (Fin 0) [Fin 0] [])
       od (Fin h) True am w =
   Inr ((ARIMAModel [Order (Suc 0) 0 0, Order (Suc 0) 0 0] [Fin 0, Fin 0] [[Fin 0], [Fin 0]] [[], []]
           (Array2 3 2 ys))\<lparr>model_niter := Some [1, 1]\<rparr>,
        w\<lparr>errmode := ErrWarn,
          stdout := stdout w @
            (if list_ex (\<lambda>flag. flag \<noteq> 0) fl
             then [''WARNING(`fit()`): Some batch members had optimizer problems.''] else []),
          calls := calls w @
            [(Call_ar_invtransparams, ErrRaise), (Call_ma_invtransparams, ErrRaise),
             (Call_batched_fmin_lbfgs_b, ErrRaise)] @
            demo_ll_f_calls @ demo_ll_f_calls @ demo_ll_f_calls @ demo_ll_f_calls @ demo_ll_f_calls @
            [(Call_ar_transparams, ErrRaise), (Call_ma_transparams, ErrRaise),
             (Call_ar_transparams, ErrRaise), (Call_ma_transparams, ErrRaise)]\<rparr>)"
  by (simp add: fit_def Let_def bnd_def seterr_def lift_def fit_x0_def call_ext_def
        demo_externals_fields np_tile_def log_call_def ret_def fit_f_demo_nan fit_gf_demo_nan
        print_line_def batch_trans_demo unpack_demo numeral_2_eq_2)

lemma aic_demo_nan:
  "aic (demo_externals fl NaN)
       ((ARIMAModel [Order (Suc 0) 0 0, Order (Suc 0) 0 0] [Fin 0, Fin 0] [[Fin 0], [Fin 0]] [[], []]
           (Array2 3 2 ys))\<lparr>model_niter := nit\<rparr>) w =
   Inr ([NaN, NaN],
        w\<lparr>calls := calls w @ [(Call_init_batched_kalman_matrices, errmode w),
                                (Call_batched_kfilter, errmode w)]\<rparr>)"
  by (simp add: aic_def loglike_def run_kalman_def bnd_def call_ext_def
        lift_def ret_def assert_same_d_def item_def demo_externals_fields ARIMAModel_def
        model_complexity_def fl_sum_def)

lemma grid_candidates_demo: "grid_candidates 2 (Suc 0) = [(0, 0), (Suc 0, 0)]"
  by (simp add: grid_candidates_def numeral_2_eq_2 upt_rec)

lemma grid_scores_demo_nan:
  "grid_scores (demo_externals [0, 0] NaN) (Array2 3 2 ys) 0 ''aic'' [(0, 0), (1, 0)] w
     = [[NaN, NaN]]"
  by (simp add: fit_demo_nan aic_demo_nan bnd_def)

lemma grid_search_demo_nan:
  "\<exists>w'. grid_search (demo_externals [0, 0] NaN) (Array2 3 2 ys) 0 2 1 ''aic'' w
     = Inr ((ARIMAModel [EmptyOrder, EmptyOrder] [Fin 0, Fin 0] [[], []] [[], []] (Array2 3 2 ys),
             [Fin (float64_max / 2), Fin (float64_max / 2)]), w')"
proof -
  have r: "replicate 2 x = [x, x]" for x :: 'a by (simp add: numeral_2_eq_2)
  have u: "[0..<2] = [0, 1]" by (simp add: upt_rec)
  show ?thesis
    by (simp add: grid_search_def grid_candidates_demo fit_demo_nan aic_demo_nan bnd_def Let_def
       item_def ret_def r u)
qed

text \<open>
  Claim C10. \<open>grid_search\<close> starts from a best criterion of \<open>finfo(float64).max / 2\<close> for
  every batch member and from a placeholder model (empty order, mean 0, empty AR and MA
  coefficient lists), and replaces the entry of a member only when a candidate's
  criterion is strictly less than the running best. So whenever \<open>grid_search\<close> returns and
  no candidate's criterion for member \<open>i\<close> is strictly below the initial bound, the
  returned model still holds the placeholder for member \<open>i\<close> and the returned criterion
  of that member is the initial bound. A NaN criterion is never strictly below anything.
  Here \<open>grid_scores\<close> is the list of criterion vectors that the run computes, one per
  fitted candidate.
\<close>

theorem grid_search_keeps_placeholder:
  "(grid_search E y_b d max_p max_q method w = Inr ((best_model, best_ic), w') \<and>
    i < shape1 y_b \<and>
    (\<forall>ic\<in>set (grid_scores E y_b d method (grid_candidates max_p max_q) w).
        i < length ic \<longrightarrow> \<not> fl_less (ic ! i) (Fin (float64_max / 2))) \<longrightarrow>
      model_order best_model ! i = EmptyOrder \<and> model_mu best_model ! i = Fin 0 \<and>
      model_ar_params best_model ! i = [] \<and> model_ma_params best_model ! i = [] \<and>
      best_ic ! i = Fin (float64_max / 2)) \<and>
   \<not> fl_less NaN v"
proof (intro conjI impI)
  assume a: "grid_search E y_b d max_p max_q method w = Inr ((best_model, best_ic), w') \<and>
    i < shape1 y_b \<and>
    (\<forall>ic\<in>set (grid_scores E y_b d method (grid_candidates max_p max_q) w).
        i < length ic \<longrightarrow> \<not> fl_less (ic ! i) (Fin (float64_max / 2)))"
  let ?nb = "shape1 y_b"
  let ?bm = "ARIMAModel (replicate ?nb EmptyOrder) (replicate ?nb (Fin 0))
               (replicate ?nb []) (replicate ?nb []) y_b"
  let ?bic = "replicate ?nb (Fin (float64_max / 2))"
  from a have r: "grid_search_loop E y_b d method (grid_candidates max_p max_q) (?bm, ?bic) w
      = Inr ((best_model, best_ic), w')"
    by (simp add: grid_search_def Let_def)
  have h: "\<forall>ic\<in>set (grid_scores E y_b d method (grid_candidates max_p max_q) w).
      i < length ic \<longrightarrow> \<not> fl_less (ic ! i) (?bic ! i)"
    using a by simp
  from grid_search_loop_keeps[OF r h] a
  show "model_order best_model ! i = EmptyOrder" "model_mu best_model ! i = Fin 0"
    "model_ar_params best_model ! i = []" "model_ma_params best_model ! i = []"
    "best_ic ! i = Fin (float64_max / 2)"
    by (simp_all add: ARIMAModel_def)
next
  show "\<not> fl_less NaN v" by simp
qed

theorem grid_search_keeps_placeholder_witness:
  "\<exists>best_model best_ic w'.
     grid_search (demo_externals [0, 0] NaN) (Array2 3 2 (replicate 3 [Fin 0, Fin 0])) 0 2 1
        ''aic'' world0 = Inr ((best_model, best_ic), w') \<and>
     grid_scores (demo_externals [0, 0] NaN) (Array2 3 2 (replicate 3 [Fin 0, Fin 0])) 0 ''aic''
        (grid_candidates 2 1) world0 = [[NaN, NaN]] \<and>
     model_order best_model ! 1 = EmptyOrder \<and> model_mu best_model ! 1 = Fin 0 \<and>
     model_ar_params best_model ! 1 = [] \<and> model_ma_params best_model ! 1 = [] \<and>
     best_ic ! 1 = Fin (float64_max / 2)"
proof -
  let ?E = "demo_externals [0, 0] NaN"
  let ?y = "Array2 3 2 (replicate 3 [Fin 0, Fin 0])"
  obtain bm bi w' where g: "grid_search ?E ?y 0 2 1 ''aic'' world0 = Inr ((bm, bi), w')"
    using grid_search_demo_nan[of "replicate 3 [Fin 0, Fin 0]" world0] by auto
  have s: "grid_scores ?E ?y 0 ''aic'' (grid_candidates 2 1) world0 = [[NaN, NaN]]"
    using grid_scores_demo_nan[of "replicate 3 [Fin 0, Fin 0]" world0] grid_candidates_demo
    by simp
  have "model_order bm ! 1 = EmptyOrder \<and> model_mu bm ! 1 = Fin 0 \<and>
     model_ar_params bm ! 1 = [] \<and> model_ma_params bm ! 1 = [] \<and>
     bi ! 1 = Fin (float64_max / 2)"
    using grid_search_keeps_placeholder[of ?E ?y 0 2 1 "''aic''" world0 bm bi w' 1] g s
    by simp
  then show ?thesis using g s by blast
qed

end
